theory Spec2Isabelle
  imports Main "HOL-Library.AList"
begin

section \<open>JavaScript values\<close>

text \<open>
  The engine is dynamically typed. Values are a tagged union; objects that the engine
  compares by identity carry an identity number. Numbers are restricted to the integers
  plus the two values on which \<open>Object.is\<close> and \<open>===\<close> disagree (NaN and negative zero).
\<close>

type_synonym addr = nat

datatype jsnum = NaN | NegZero | Fin int

datatype fnref =
    Fragment       \<comment> \<open>\<open>Fragment\<close> of vnode.js\<close>
  | Provider nat   \<comment> \<open>the \<open>Provider\<close> function made by \<open>createContext\<close>, tagged with its \<open>_contextId\<close>\<close>
  | UserFn nat     \<comment> \<open>a function of the user: component, handler, effect, cleanup, updater\<close>

datatype jsval =
    Undefined
  | Null
  | JBool bool
  | JNum jsnum
  | JStr string
  | JFun fnref                         \<comment> \<open>function objects, by identity\<close>
  | JPortal                            \<comment> \<open>the symbol \<open>PORTAL_TYPE\<close>\<close>
  | JArr nat "jsval list"              \<comment> \<open>array, with identity\<close>
  | JObj nat "(string \<times> jsval) list"   \<comment> \<open>plain object, with identity, own properties in insertion order\<close>
  | JVNode addr                        \<comment> \<open>reference to a vnode object\<close>
  | JDom addr                          \<comment> \<open>reference to a DOM node\<close>
  | JComp addr                         \<comment> \<open>reference to a component instance\<close>
  | JRefObj addr                       \<comment> \<open>reference to a ref object \<open>{ current }\<close>\<close>

text \<open>\<open>Object.is\<close>: NaN equals NaN, the two zeros differ, objects by identity.\<close>

definition objectIs :: "jsval \<Rightarrow> jsval \<Rightarrow> bool" where
  "objectIs a b =
     (case a of
        JArr i _ \<Rightarrow> (case b of JArr j _ \<Rightarrow> i = j | _ \<Rightarrow> False)
      | JObj i _ \<Rightarrow> (case b of JObj j _ \<Rightarrow> i = j | _ \<Rightarrow> False)
      | _ \<Rightarrow> a = b)"

text \<open>\<open>===\<close>: NaN differs from itself, the two zeros are equal.\<close>

fun numStrictEq :: "jsnum \<Rightarrow> jsnum \<Rightarrow> bool" where
  "numStrictEq NaN _ = False"
| "numStrictEq _ NaN = False"
| "numStrictEq NegZero NegZero = True"
| "numStrictEq NegZero (Fin n) = (n = 0)"
| "numStrictEq (Fin n) NegZero = (n = 0)"
| "numStrictEq (Fin m) (Fin n) = (m = n)"

definition strictEq :: "jsval \<Rightarrow> jsval \<Rightarrow> bool" where
  "strictEq a b =
     (case a of
        JNum x \<Rightarrow> (case b of JNum y \<Rightarrow> numStrictEq x y | _ \<Rightarrow> False)
      | _ \<Rightarrow> objectIs a b)"

text \<open>\<open>x == null\<close> holds for \<open>null\<close> and \<open>undefined\<close> only.\<close>

fun isNullish :: "jsval \<Rightarrow> bool" where
  "isNullish Undefined = True"
| "isNullish Null = True"
| "isNullish _ = False"

fun numTruthy :: "jsnum \<Rightarrow> bool" where
  "numTruthy NaN = False"
| "numTruthy NegZero = False"
| "numTruthy (Fin n) = (n \<noteq> 0)"

fun truthy :: "jsval \<Rightarrow> bool" where
  "truthy Undefined = False"
| "truthy Null = False"
| "truthy (JBool b) = b"
| "truthy (JNum x) = numTruthy x"
| "truthy (JStr s) = (s \<noteq> [])"
| "truthy _ = True"

text \<open>Property read \<open>v[name]\<close> on a plain object; \<open>undefined\<close> when absent.\<close>

fun getProp :: "jsval \<Rightarrow> string \<Rightarrow> jsval" where
  "getProp (JObj _ ps) name = (case map_of ps name of Some v \<Rightarrow> v | None \<Rightarrow> Undefined)"
| "getProp _ name = Undefined"

text \<open>\<open>name in v\<close> on a plain object.\<close>

fun hasProp :: "jsval \<Rightarrow> string \<Rightarrow> bool" where
  "hasProp (JObj _ ps) name = (name \<in> fst ` set ps)"
| "hasProp _ name = False"

text \<open>The own enumerable properties visited by \<open>for (const k in v)\<close>.\<close>

fun ownProps :: "jsval \<Rightarrow> (string \<times> jsval) list" where
  "ownProps (JObj _ ps) = ps"
| "ownProps _ = []"

text \<open>
  \<open>String(n)\<close> for the numbers of the model: NaN, the zeros, and the integers that
  \<open>String\<close> prints in plain decimal digits, which are those of magnitude below \<open>10^21\<close>
  (from there on \<open>String\<close> switches to exponent notation). Fractions, the infinities and
  larger integers are outside the model: \<open>Fin n\<close> stands for a number only when
  \<open>\<bar>n\<bar> < 10^21\<close>.
\<close>

fun digitsOf :: "nat \<Rightarrow> nat \<Rightarrow> string" where
  "digitsOf 0 n = []"
| "digitsOf (Suc fuel) n =
     (if n < 10 then [''0123456789'' ! n]
      else digitsOf fuel (n div 10) @ [''0123456789'' ! (n mod 10)])"

definition showNat :: "nat \<Rightarrow> string" where
  "showNat n = digitsOf (Suc n) n"

fun numToString :: "jsnum \<Rightarrow> string" where
  "numToString NaN = ''NaN''"
| "numToString NegZero = ''0''"
| "numToString (Fin n) = (if n < 0 then CHR ''-'' # showNat (nat (- n)) else showNat (nat n))"

text \<open>
  \<open>String.prototype.toLowerCase\<close>. The strings of the model are ASCII strings (a prop name,
  a tag name, a text): their only cased letters are \<open>A\<close> to \<open>Z\<close> and \<open>a\<close> to \<open>z\<close>.
\<close>

definition upperLetters :: string where
  "upperLetters = ''ABCDEFGHIJKLMNOPQRSTUVWXYZ''"

definition lowerLetters :: string where
  "lowerLetters = ''abcdefghijklmnopqrstuvwxyz''"

definition isUpper :: "char \<Rightarrow> bool" where
  "isUpper c = (c \<in> set upperLetters)"

definition lowerChar :: "char \<Rightarrow> char" where
  "lowerChar c = (case map_of (zip upperLetters lowerLetters) c of Some l \<Rightarrow> l | None \<Rightarrow> c)"

definition toLowerCase :: "string \<Rightarrow> string" where
  "toLowerCase s = map lowerChar s"


text \<open>\<open>typeof v === 'object' && v !== null\<close>.\<close>

fun isObject :: "jsval \<Rightarrow> bool" where
  "isObject (JArr _ _) = True"
| "isObject (JObj _ _) = True"
| "isObject (JVNode _) = True"
| "isObject (JDom _) = True"
| "isObject (JComp _) = True"
| "isObject (JRefObj _) = True"
| "isObject _ = False"

fun isString :: "jsval \<Rightarrow> bool" where
  "isString (JStr _) = True"
| "isString _ = False"

fun isNumber :: "jsval \<Rightarrow> bool" where
  "isNumber (JNum _) = True"
| "isNumber _ = False"

fun isFunction :: "jsval \<Rightarrow> bool" where
  "isFunction (JFun _) = True"
| "isFunction _ = False"

text \<open>A thrown exception is the left summand, carrying its message.\<close>

fun foldE :: "('a \<Rightarrow> 's \<Rightarrow> string + 's) \<Rightarrow> 'a list \<Rightarrow> 's \<Rightarrow> string + 's" where
  "foldE f [] s = Inr s"
| "foldE f (x # xs) s = (case f x s of Inl e \<Rightarrow> Inl e | Inr s' \<Rightarrow> foldE f xs s')"

section \<open>The host document\<close>

text \<open>
  A DOM node as far as the engine touches it. Nodes live in a store and refer to each
  other by address. \<open>listeners\<close> is the expando \<open>_listeners\<close> (absent until the first
  handler is set), \<open>hostListeners\<close> the event types for which \<open>eventProxy\<close> is registered
  with the host, \<open>rootVNode\<close> the expando \<open>_children\<close> that \<open>render\<close> keeps on a container.
\<close>

record domnode =
  isElement :: bool
  tagName :: string
  namespaceURI :: jsval
  parentNode :: "addr option"
  childNodes :: "addr list"
  nodeValue :: jsval
  attributes :: "(string \<times> jsval) list"
  domProps :: "(string \<times> jsval) list"
  listeners :: "(string \<times> jsval) list option"
  hostListeners :: "string list"
  cssText :: jsval
  styleDecls :: "(string \<times> jsval) list"
  customProps :: "(string \<times> jsval) list"
  innerHTML :: jsval
  rootVNode :: "addr option"

definition newElement :: "string \<Rightarrow> jsval \<Rightarrow> domnode" where
  "newElement tag ns =
     \<lparr> isElement = True, tagName = tag, namespaceURI = ns, parentNode = None, childNodes = [],
       nodeValue = Null, attributes = [], domProps = [], listeners = None, hostListeners = [],
       cssText = JStr [], styleDecls = [], customProps = [], innerHTML = JStr [],
       rootVNode = None \<rparr>"

definition newTextNode :: "jsval \<Rightarrow> domnode" where
  "newTextNode txt = (newElement [] Undefined) \<lparr> isElement := False, nodeValue := txt \<rparr>"

section \<open>props.js: the property writer\<close>

definition CSS_NUMBER_PROPERTIES :: "string list" where
  "CSS_NUMBER_PROPERTIES =
     [''animationIterationCount'', ''columnCount'', ''fillOpacity'', ''flexGrow'', ''flexShrink'',
      ''fontWeight'', ''gridColumn'', ''gridRow'', ''lineHeight'', ''opacity'', ''order'',
      ''orphans'', ''strokeOpacity'', ''tabSize'', ''widows'', ''zIndex'', ''zoom'']"

text \<open>
  \<open>CSS_NUMBER_PROPERTIES[name]\<close> is a property read on an object literal: it is truthy for
  the keys of the literal (all \<open>true\<close>) and also for the names the object inherits from
  \<open>Object.prototype\<close>, whose values are functions or, for \<open>__proto__\<close>, an object.
\<close>

definition OBJECT_PROTOTYPE_KEYS :: "string list" where
  "OBJECT_PROTOTYPE_KEYS =
     [''constructor'', ''hasOwnProperty'', ''isPrototypeOf'', ''propertyIsEnumerable'',
      ''toLocaleString'', ''toString'', ''valueOf'', ''__defineGetter__'', ''__defineSetter__'',
      ''__lookupGetter__'', ''__lookupSetter__'', ''__proto__'']"

definition cssNumberLookup :: "string \<Rightarrow> bool" where
  "cssNumberLookup name = (name \<in> set CSS_NUMBER_PROPERTIES \<or> name \<in> set OBJECT_PROTOTYPE_KEYS)"

definition orEmpty :: "jsval \<Rightarrow> jsval" where
  "orEmpty v = (if isNullish v then JStr [] else v)"

definition setStyleProperty :: "string \<Rightarrow> jsval \<Rightarrow> domnode \<Rightarrow> domnode" where
  "setStyleProperty name v el =
     (if name \<noteq> [] \<and> name ! 0 = CHR ''-''
      then el \<lparr> customProps := AList.update name (orEmpty v) (customProps el) \<rparr>
      else
        let v' = (case v of
                    JNum n \<Rightarrow> if \<not> cssNumberLookup name
                              then JStr (numToString n @ ''px'') else v
                  | _ \<Rightarrow> v)
        in el \<lparr> styleDecls := AList.update name (orEmpty v') (styleDecls el) \<rparr>)"

text \<open>
  \<open>styleName in value\<close> throws a TypeError when \<open>value\<close> is a truthy primitive; the
  string case has returned before.
\<close>

definition clearOldStyle :: "jsval \<Rightarrow> string \<Rightarrow> domnode \<Rightarrow> string + domnode" where
  "clearOldStyle v styleName el =
     (if \<not> truthy v then Inr (setStyleProperty styleName (JStr []) el)
      else if \<not> isObject v \<and> \<not> isFunction v
        then Inl ''TypeError: cannot use in operator on a primitive''
      else if hasProp v styleName then Inr el
      else Inr (setStyleProperty styleName (JStr []) el))"

definition applyNewStyle :: "jsval \<Rightarrow> string \<times> jsval \<Rightarrow> domnode \<Rightarrow> domnode" where
  "applyNewStyle oldValue entry el =
     (if \<not> truthy oldValue \<or> \<not> strictEq (getProp oldValue (fst entry)) (snd entry)
      then setStyleProperty (fst entry) (snd entry) el else el)"

definition setStyle :: "domnode \<Rightarrow> jsval \<Rightarrow> jsval \<Rightarrow> string + domnode" where
  "setStyle el v oldValue =
     (if isString v then Inr (el \<lparr> cssText := v \<rparr>)
      else
        case (if isObject oldValue
              then foldE (clearOldStyle v) (map fst (ownProps oldValue)) el
              else if isString oldValue then Inr (el \<lparr> cssText := JStr [] \<rparr>)
              else Inr el) of
          Inl e \<Rightarrow> Inl e
        | Inr el1 \<Rightarrow>
            Inr (if isObject v then fold (applyNewStyle oldValue) (ownProps v) el1 else el1))"

definition setEventHandler :: "domnode \<Rightarrow> string \<Rightarrow> jsval \<Rightarrow> jsval \<Rightarrow> domnode" where
  "setEventHandler el name v oldValue =
     (let eventName = toLowerCase (drop 2 name);
          ls = (case listeners el of None \<Rightarrow> [] | Some l \<Rightarrow> l);
          el1 = el \<lparr> listeners := Some (AList.update eventName v ls) \<rparr>
      in if truthy v \<and> \<not> truthy oldValue
           then el1 \<lparr> hostListeners := List.insert eventName (hostListeners el1) \<rparr>
         else if \<not> truthy v \<and> truthy oldValue
           then el1 \<lparr> hostListeners := removeAll eventName (hostListeners el1) \<rparr>
         else el1)"

definition attrName :: "string \<Rightarrow> string" where
  "attrName name =
     (if name = ''className'' then ''class'' else if name = ''htmlFor'' then ''for'' else name)"

definition setAttributeSVG :: "domnode \<Rightarrow> string \<Rightarrow> jsval \<Rightarrow> domnode" where
  "setAttributeSVG el name v =
     (if isNullish v \<or> v = JBool False
      then el \<lparr> attributes := AList.delete (attrName name) (attributes el) \<rparr>
      else el \<lparr> attributes :=
             AList.update (attrName name) (if v = JBool True then JStr [] else v) (attributes el) \<rparr>)"

definition setPropertyOrAttribute :: "domnode \<Rightarrow> string \<Rightarrow> jsval \<Rightarrow> domnode" where
  "setPropertyOrAttribute el name v =
     (let propName = attrName name in
      if propName = ''value'' \<or> propName = ''checked'' then
        (if isNullish v
         then el \<lparr> domProps := AList.update propName
                       (if propName = ''value'' then JStr [] else JBool False) (domProps el) \<rparr>
         else el \<lparr> domProps := AList.update propName v (domProps el) \<rparr>)
      else if v = JBool True
        then el \<lparr> attributes := AList.update propName (JStr []) (attributes el) \<rparr>
      else if isNullish v \<or> v = JBool False
        then el \<lparr> attributes := AList.delete propName (attributes el) \<rparr>
      else el \<lparr> attributes := AList.update propName v (attributes el) \<rparr>)"

definition setProperty :: "domnode \<Rightarrow> string \<Rightarrow> jsval \<Rightarrow> jsval \<Rightarrow> jsval \<Rightarrow> string + domnode" where
  "setProperty el name v oldValue namespace =
     (if name = ''children'' then Inr el
      else if name = ''style'' then setStyle el v oldValue
      else if 1 < length name \<and> name ! 0 = CHR ''o'' \<and> name ! 1 = CHR ''n''
        then Inr (setEventHandler el name v oldValue)
      else if name = ''dangerouslySetInnerHTML''
        then Inr (if truthy v \<and> \<not> isNullish (getProp v ''__html'')
                  then el \<lparr> innerHTML := getProp v ''__html'' \<rparr> else el)
      else if name = ''ref'' then Inr el
      else if name = ''key'' then Inr el
      else if truthy namespace then Inr (setAttributeSVG el name v)
      else Inr (setPropertyOrAttribute el name v))"

definition removeOldProp :: "jsval \<Rightarrow> jsval \<Rightarrow> string \<times> jsval \<Rightarrow> domnode \<Rightarrow> string + domnode" where
  "removeOldProp newProps namespace entry el =
     (if fst entry \<noteq> ''children'' \<and> \<not> hasProp newProps (fst entry)
      then setProperty el (fst entry) Null (snd entry) namespace else Inr el)"

definition applyNewProp :: "jsval \<Rightarrow> jsval \<Rightarrow> string \<times> jsval \<Rightarrow> domnode \<Rightarrow> string + domnode" where
  "applyNewProp oldProps namespace entry el =
     (let oldValue = getProp oldProps (fst entry) in
      if \<not> strictEq (snd entry) oldValue \<or> fst entry = ''value'' \<or> fst entry = ''checked''
      then setProperty el (fst entry) (snd entry) oldValue namespace else Inr el)"

definition diffProps :: "domnode \<Rightarrow> jsval \<Rightarrow> jsval \<Rightarrow> jsval \<Rightarrow> string + domnode" where
  "diffProps el newProps oldProps namespace =
     (case foldE (removeOldProp newProps namespace) (ownProps oldProps) el of
        Inl e \<Rightarrow> Inl e
      | Inr el1 \<Rightarrow> foldE (applyNewProp oldProps namespace) (ownProps newProps) el1)"

definition beginsWithOn :: "string \<Rightarrow> bool" where
  "beginsWithOn name = (1 < length name \<and> name ! 0 = CHR ''o'' \<and> name ! 1 = CHR ''n'')"

section \<open>The engine's objects\<close>

text \<open>
  Vnodes, component instances, DOM nodes and ref objects are mutable and shared, so each
  kind lives in a store (a list indexed by address; allocation appends). The fields of a
  vnode are those of \<open>createVNode\<close>, plus the expandos the engine and the context module
  read or write (\<open>_index\<close>, \<open>_contextValue\<close>, \<open>_contextSubscriptions\<close>); a missing
  expando reads as \<open>undefined\<close> (\<open>None\<close>). Sets keep insertion order, as in JavaScript.
\<close>

record vnode =
  vtype :: jsval
  props :: jsval
  key :: jsval
  ref :: jsval
  vchildren :: "addr list option"
  vdom :: "addr option"
  vcomponent :: "addr option"
  vparent :: "addr option"
  vdepth :: nat
  vflags :: nat
  vindex :: "nat option"
  contextValue :: jsval
  contextSubscriptions :: "addr list option"

text \<open>A hook slot: the object \<open>getHookState\<close> pushes, with the fields the hooks add.\<close>

record hook =
  initialized :: bool
  hvalue :: jsval
  hcomponent :: "addr option"
  hasSetState :: bool
  args :: "jsval list option"
  pendingArgs :: "jsval list option"
  cleanup :: jsval

definition emptyHook :: hook where
  "emptyHook = \<lparr> initialized = False, hvalue = Undefined, hcomponent = None,
                 hasSetState = False, args = None, pendingArgs = None, cleanup = Undefined \<rparr>"

text \<open>
  A component instance. The pending queues hold references to slot objects; a slot is
  identified by its index in \<open>hooksList\<close>, since slots are only ever appended.
\<close>

record component =
  cprops :: jsval
  hooksList :: "hook list"
  pendingEffects :: "nat list"
  pendingLayoutEffects :: "nat list option"
  cvnode :: "addr option"
  csubscriptions :: "addr list option"

text \<open>
  What the outside observes: calls into user code, the option hooks (recorded at the
  places where the engine would call an installed hook) and the console.
\<close>

datatype event =
    Rendered addr            \<comment> \<open>the component function was called for this instance\<close>
  | EffectRun addr nat jsval \<comment> \<open>instance, slot, the callback invoked\<close>
  | CleanupRun addr nat jsval
  | RefCalled jsval jsval
  | HookDiff addr            \<comment> \<open>\<open>options._diff\<close>\<close>
  | HookRender addr          \<comment> \<open>\<open>options._render\<close>\<close>
  | HookDiffed addr          \<comment> \<open>\<open>options.diffed\<close>\<close>
  | HookUnmount addr         \<comment> \<open>\<open>options.unmount\<close>\<close>
  | ConsoleWarn string
  | ConsoleError string

record world =
  vnodes :: "vnode list"
  comps :: "component list"
  nodes :: "domnode list"
  refObjs :: "jsval list"
  nextId :: nat
  renderQueue :: "addr list"
  scheduled :: bool
  microtasks :: nat
  paintTasks :: "addr list list"
  currentComponent :: "addr option"
  currentIndex :: nat
  trace :: "event list"

definition emptyWorld :: world where
  "emptyWorld = \<lparr> vnodes = [], comps = [], nodes = [], refObjs = [], nextId = 0,
                  renderQueue = [], scheduled = False, microtasks = 0, paintTasks = [],
                  currentComponent = None, currentIndex = 0, trace = [] \<rparr>"

text \<open>
  A call either returns, throws (the world as the exception left it), or does not
  return.
\<close>

datatype 'a outcome = Done 'a world | Throw string world | Diverge

definition andThen :: "'a outcome \<Rightarrow> ('a \<Rightarrow> world \<Rightarrow> 'b outcome) \<Rightarrow> 'b outcome" where
  "andThen m f = (case m of Done x w \<Rightarrow> f x w | Throw e w \<Rightarrow> Throw e w | Diverge \<Rightarrow> Diverge)"

fun forEachW :: "('a \<Rightarrow> world \<Rightarrow> unit outcome) \<Rightarrow> 'a list \<Rightarrow> world \<Rightarrow> unit outcome" where
  "forEachW f [] w = Done () w"
| "forEachW f (x # xs) w = andThen (f x w) (\<lambda>_. forEachW f xs)"

text \<open>
  User code. A component body (\<open>body\<close> of the function's number) runs against the
  world: it calls hooks and builds vnodes. Effect callbacks, cleanups and ref callbacks
  are opaque: calling one is recorded in the trace. An effect callback or a cleanup
  throws when \<open>throws\<close> gives an error for the function called; an effect callback that
  returns gives \<open>effectResult\<close> of the function called. An updater passed to a state
  setter is a pure function of the previous value.
\<close>

record env =
  body :: "nat \<Rightarrow> jsval \<Rightarrow> world \<Rightarrow> jsval outcome"
  effectResult :: "jsval \<Rightarrow> jsval"
  updater :: "jsval \<Rightarrow> jsval \<Rightarrow> jsval"
  throws :: "jsval \<Rightarrow> string option"

definition logEvent :: "event \<Rightarrow> world \<Rightarrow> world" where
  "logEvent e w = w \<lparr> trace := trace w @ [e] \<rparr>"

definition updVNode :: "addr \<Rightarrow> (vnode \<Rightarrow> vnode) \<Rightarrow> world \<Rightarrow> world" where
  "updVNode a f w = w \<lparr> vnodes := (vnodes w)[a := f (vnodes w ! a)] \<rparr>"

definition updComp :: "addr \<Rightarrow> (component \<Rightarrow> component) \<Rightarrow> world \<Rightarrow> world" where
  "updComp c f w = w \<lparr> comps := (comps w)[c := f (comps w ! c)] \<rparr>"

definition updNode :: "addr \<Rightarrow> (domnode \<Rightarrow> domnode) \<Rightarrow> world \<Rightarrow> world" where
  "updNode d f w = w \<lparr> nodes := (nodes w)[d := f (nodes w ! d)] \<rparr>"

definition updHook :: "addr \<Rightarrow> nat \<Rightarrow> (hook \<Rightarrow> hook) \<Rightarrow> world \<Rightarrow> world" where
  "updHook c i f w = updComp c (\<lambda>k. k \<lparr> hooksList := (hooksList k)[i := f (hooksList k ! i)] \<rparr>) w"

definition freshId :: "world \<Rightarrow> nat \<times> world" where
  "freshId w = (nextId w, w \<lparr> nextId := Suc (nextId w) \<rparr>)"

section \<open>vnode.js\<close>

definition blankVNode :: "jsval \<Rightarrow> jsval \<Rightarrow> jsval \<Rightarrow> jsval \<Rightarrow> vnode" where
  "blankVNode type' props' key' ref' =
     \<lparr> vtype = type', props = props', key = key', ref = ref',
       vchildren = None, vdom = None, vcomponent = None, vparent = None,
       vdepth = 0, vflags = 0, vindex = None,
       contextValue = Undefined, contextSubscriptions = None \<rparr>"

text \<open>\<open>createVNode\<close> returns a new object: the record is appended to the store.\<close>

definition createVNode :: "jsval \<Rightarrow> jsval \<Rightarrow> jsval \<Rightarrow> jsval \<Rightarrow> world \<Rightarrow> addr \<times> world" where
  "createVNode type' props' key' ref' w =
     (length (vnodes w), w \<lparr> vnodes := vnodes w @ [blankVNode type' props' key' ref'] \<rparr>)"

fun flattenChild :: "jsval \<Rightarrow> jsval list"
  and flattenChildren :: "jsval list \<Rightarrow> jsval list" where
  "flattenChild Undefined = []"
| "flattenChild Null = []"
| "flattenChild (JBool _) = []"
| "flattenChild (JArr _ xs) = flattenChildren xs"
| "flattenChild v = [v]"
| "flattenChildren [] = []"
| "flattenChildren (x # xs) = flattenChild x @ flattenChildren xs"

text \<open>\<open>h(type, props, ...children)\<close>; no \<open>options.vnode\<close> hook is installed.\<close>

definition h :: "jsval \<Rightarrow> jsval \<Rightarrow> jsval list \<Rightarrow> world \<Rightarrow> addr \<times> world" where
  "h type' props' children w =
     (let normalizedProps = (if truthy props' then props' else JObj 0 []);
          key' = (if getProp normalizedProps ''key'' \<noteq> Undefined
                  then getProp normalizedProps ''key'' else Null);
          ref' = (if getProp normalizedProps ''ref'' \<noteq> Undefined
                  then getProp normalizedProps ''ref'' else Null);
          finalProps = filter (\<lambda>p. fst p \<noteq> ''key'' \<and> fst p \<noteq> ''ref'') (ownProps normalizedProps);
          flatChildren = flattenChildren children;
          (pid, w1) = freshId w;
          (aid, w2) = freshId w1;
          finalProps' =
            (if 0 < length flatChildren
             then AList.update ''children''
                    (if length flatChildren = 1 then flatChildren ! 0 else JArr aid flatChildren)
                    finalProps
             else finalProps)
      in createVNode type' (JObj pid finalProps') key' ref' w2)"

text \<open>
  Calling one of the library's own component functions: both \<open>Fragment\<close> and a
  \<open>Provider\<close> return \<open>props.children\<close>; reading a property of \<open>null\<close> throws.
\<close>

definition returnChildren :: "jsval \<Rightarrow> world \<Rightarrow> jsval outcome" where
  "returnChildren props' w =
     (if isNullish props' then Throw ''TypeError: cannot read properties of null'' w
      else Done (getProp props' ''children'') w)"

definition callComponent :: "env \<Rightarrow> fnref \<Rightarrow> jsval \<Rightarrow> world \<Rightarrow> jsval outcome" where
  "callComponent E f props' w =
     (case f of
        Fragment \<Rightarrow> returnChildren props' w
      | Provider _ \<Rightarrow> returnChildren props' w
      | UserFn k \<Rightarrow> body E k props' w)"

section \<open>scheduler.js: the render queue\<close>

definition enqueueRender :: "addr \<Rightarrow> world \<Rightarrow> world" where
  "enqueueRender c w =
     (if c \<notin> set (renderQueue w) then
        let w1 = w \<lparr> renderQueue := renderQueue w @ [c] \<rparr>
        in if \<not> scheduled w1 then w1 \<lparr> scheduled := True, microtasks := Suc (microtasks w1) \<rparr>
           else w1
      else w)"

definition dequeueRender :: "addr \<Rightarrow> world \<Rightarrow> world" where
  "dequeueRender c w =
     (if c \<in> set (renderQueue w) then w \<lparr> renderQueue := remove1 c (renderQueue w) \<rparr> else w)"

section \<open>context.js\<close>

record jscontext =
  ctxId :: nat
  defaultValue :: jsval

definition createContext :: "jsval \<Rightarrow> world \<Rightarrow> jscontext \<times> world" where
  "createContext dflt w =
     (let (i, w1) = freshId w in (\<lparr> ctxId = i, defaultValue = dflt \<rparr>, w1))"

definition isProviderFor :: "jscontext \<Rightarrow> vnode \<Rightarrow> bool" where
  "isProviderFor ctx v = (case vtype v of JFun (Provider i) \<Rightarrow> i = ctxId ctx | _ \<Rightarrow> False)"

text \<open>
  The walk up the \<open>_parent\<close> chain; \<open>None\<close> is a walk that never ends (a cyclic chain),
  \<open>Some None\<close> the result \<open>null\<close>.
\<close>

partial_function (option) findProvider :: "vnode list \<Rightarrow> jscontext \<Rightarrow> addr option \<Rightarrow> addr option option" where
  "findProvider vs ctx current =
     (case current of
        None \<Rightarrow> Some None
      | Some a \<Rightarrow>
          if isProviderFor ctx (vs ! a) then Some (Some a)
          else findProvider vs ctx (vparent (vs ! a)))"

declare findProvider.simps [code]

definition setAdd :: "'a \<Rightarrow> 'a list option \<Rightarrow> 'a list option" where
  "setAdd x s = (case s of None \<Rightarrow> Some [x] | Some xs \<Rightarrow> Some (if x \<in> set xs then xs else xs @ [x]))"

definition subscribeToProvider :: "addr \<Rightarrow> addr \<Rightarrow> world \<Rightarrow> world" where
  "subscribeToProvider providerVNode c w =
     updComp c (\<lambda>k. k \<lparr> csubscriptions := setAdd providerVNode (csubscriptions k) \<rparr>)
       (updVNode providerVNode
          (\<lambda>v. v \<lparr> contextSubscriptions := setAdd c (contextSubscriptions v) \<rparr>) w)"

definition setDelete :: "'a \<Rightarrow> 'a list option \<Rightarrow> 'a list option" where
  "setDelete x s = map_option (removeAll x) s"

definition notifyOne :: "addr \<Rightarrow> addr \<Rightarrow> world \<Rightarrow> world" where
  "notifyOne providerVNode c w =
     (if cvnode (comps w ! c) \<noteq> None then enqueueRender c w
      else updVNode providerVNode
             (\<lambda>v. v \<lparr> contextSubscriptions := setDelete c (contextSubscriptions v) \<rparr>) w)"

definition notifyContextSubscribers :: "addr \<Rightarrow> world \<Rightarrow> world" where
  "notifyContextSubscribers providerVNode w =
     (case contextSubscriptions (vnodes w ! providerVNode) of
        None \<Rightarrow> w
      | Some subs \<Rightarrow> fold (notifyOne providerVNode) subs w)"

definition unsubscribeFrom :: "addr \<Rightarrow> addr \<Rightarrow> world \<Rightarrow> world" where
  "unsubscribeFrom c providerVNode w =
     updVNode providerVNode
       (\<lambda>v. v \<lparr> contextSubscriptions := setDelete c (contextSubscriptions v) \<rparr>) w"

definition cleanupContextSubscriptions :: "addr \<Rightarrow> world \<Rightarrow> world" where
  "cleanupContextSubscriptions c w =
     (case csubscriptions (comps w ! c) of
        None \<Rightarrow> w
      | Some ps \<Rightarrow>
          updComp c (\<lambda>k. k \<lparr> csubscriptions := Some [] \<rparr>) (fold (unsubscribeFrom c) ps w))"

section \<open>hooks.js\<close>

definition setCurrentComponent :: "addr option \<Rightarrow> world \<Rightarrow> world" where
  "setCurrentComponent c w = w \<lparr> currentComponent := c, currentIndex := 0 \<rparr>"

text \<open>
  \<open>getHookState(index)\<close> returns a reference to the slot: the instance and the index.
  With no current component the read of \<open>currentComponent.__hooks\<close> throws.
\<close>

definition getHookState :: "nat \<Rightarrow> world \<Rightarrow> (addr \<times> nat) outcome" where
  "getHookState index w =
     (case currentComponent w of
        None \<Rightarrow> Throw ''TypeError: cannot read properties of null'' w
      | Some c \<Rightarrow>
          let w1 = (if length (hooksList (comps w ! c)) \<le> index
                    then updComp c (\<lambda>k. k \<lparr> hooksList := hooksList k @ [emptyHook] \<rparr>) w
                    else w)
          in if index < length (hooksList (comps w1 ! c)) then Done (c, index) w1
             else Throw ''TypeError: cannot read properties of undefined'' w1)"

text \<open>\<open>getHookState(currentIndex++)\<close>.\<close>

definition nextHookState :: "world \<Rightarrow> (addr \<times> nat) outcome" where
  "nextHookState w = getHookState (currentIndex w) (w \<lparr> currentIndex := Suc (currentIndex w) \<rparr>)"

definition slotOf :: "world \<Rightarrow> addr \<Rightarrow> nat \<Rightarrow> hook" where
  "slotOf w c i = hooksList (comps w ! c) ! i"

text \<open>
  \<open>useState\<close> returns the value and the setter; the setter is the closure over the slot,
  here the pair of instance and slot index, applied by \<open>setState\<close>.
\<close>

definition useState :: "env \<Rightarrow> jsval \<Rightarrow> world \<Rightarrow> (jsval \<times> addr \<times> nat) outcome" where
  "useState E initialState w =
     andThen (nextHookState w) (\<lambda>(c, i) w1.
       let w2 = (if \<not> initialized (slotOf w1 c i)
                 then updHook c i (\<lambda>s. s \<lparr> initialized := True,
                        hvalue := (if isFunction initialState
                                   then updater E initialState Undefined else initialState),
                        hcomponent := currentComponent w1 \<rparr>) w1
                 else w1);
           w3 = (if \<not> hasSetState (slotOf w2 c i)
                 then updHook c i (\<lambda>s. s \<lparr> hasSetState := True \<rparr>) w2 else w2)
       in Done (hvalue (slotOf w3 c i), c, i) w3)"

definition setState :: "env \<Rightarrow> addr \<Rightarrow> nat \<Rightarrow> jsval \<Rightarrow> world \<Rightarrow> world" where
  "setState E c i update w =
     (let nextValue = (if isFunction update then updater E update (hvalue (slotOf w c i))
                       else update)
      in if \<not> objectIs (hvalue (slotOf w c i)) nextValue
         then (case hcomponent (slotOf w c i) of
                 Some k \<Rightarrow> enqueueRender k (updHook c i (\<lambda>s. s \<lparr> hvalue := nextValue \<rparr>) w)
               | None \<Rightarrow> updHook c i (\<lambda>s. s \<lparr> hvalue := nextValue \<rparr>) w)
         else w)"

text \<open>The dependency comparison; \<open>None\<close> is \<open>undefined\<close>.\<close>

definition argsChanged :: "jsval list option \<Rightarrow> jsval list option \<Rightarrow> bool" where
  "argsChanged oldArgs newArgs =
     (case oldArgs of
        None \<Rightarrow> True
      | Some old \<Rightarrow>
          (case newArgs of
             None \<Rightarrow> True
           | Some new \<Rightarrow>
               if length old \<noteq> length new then True
               else list_ex (\<lambda>i. \<not> objectIs (old ! i) (new ! i)) [0..<length new]))"

definition useEffect :: "jsval \<Rightarrow> jsval list option \<Rightarrow> world \<Rightarrow> unit outcome" where
  "useEffect callback deps w =
     andThen (nextHookState w) (\<lambda>(c, i) w1.
       if argsChanged (args (slotOf w1 c i)) deps
       then Done ()
              (updComp c (\<lambda>k. k \<lparr> pendingEffects := pendingEffects k @ [i] \<rparr>)
                 (updHook c i (\<lambda>s. s \<lparr> hvalue := callback, pendingArgs := deps \<rparr>) w1))
       else Done () w1)"

definition useLayoutEffect :: "jsval \<Rightarrow> jsval list option \<Rightarrow> world \<Rightarrow> unit outcome" where
  "useLayoutEffect callback deps w =
     andThen (nextHookState w) (\<lambda>(c, i) w1.
       if argsChanged (args (slotOf w1 c i)) deps
       then Done ()
              (updComp c (\<lambda>k. k \<lparr> pendingLayoutEffects :=
                           Some ((case pendingLayoutEffects k of None \<Rightarrow> [] | Some l \<Rightarrow> l) @ [i]) \<rparr>)
                 (updHook c i (\<lambda>s. s \<lparr> hvalue := callback, pendingArgs := deps \<rparr>) w1))
       else Done () w1)"

definition useContext :: "jscontext \<Rightarrow> world \<Rightarrow> jsval outcome" where
  "useContext ctx w =
     (case currentComponent w of
        None \<Rightarrow> Throw ''Error: useContext must be called during render'' w
      | Some c \<Rightarrow>
          (case cvnode (comps w ! c) of
             None \<Rightarrow> Done (defaultValue ctx) w
           | Some v \<Rightarrow>
               (case findProvider (vnodes w) ctx (vparent (vnodes w ! v)) of
                  None \<Rightarrow> Diverge
                | Some None \<Rightarrow> Done (defaultValue ctx) w
                | Some (Some providerVNode) \<Rightarrow>
                    Done (contextValue (vnodes w ! providerVNode))
                         (subscribeToProvider providerVNode c w))))"

text \<open>
  One pending slot at commit: the previous cleanup, then the callback, whose result is
  kept as the next cleanup when it is a function; the pending dependencies become the
  accepted ones.
\<close>

definition callUser :: "env \<Rightarrow> jsval \<Rightarrow> world \<Rightarrow> unit outcome" where
  "callUser E f w = (case throws E f of Some e \<Rightarrow> Throw e w | None \<Rightarrow> Done () w)"

definition runEffectSlot :: "env \<Rightarrow> addr \<Rightarrow> nat \<Rightarrow> world \<Rightarrow> unit outcome" where
  "runEffectSlot E c i w =
     andThen (if truthy (cleanup (slotOf w c i))
              then callUser E (cleanup (slotOf w c i))
                     (logEvent (CleanupRun c i (cleanup (slotOf w c i))) w)
              else Done () w)
       (\<lambda>_ w1.
          if \<not> isFunction (hvalue (slotOf w1 c i))
          then Throw ''TypeError: hookState._value is not a function'' w1
          else
            let cb = hvalue (slotOf w1 c i);
                r = effectResult E cb
            in andThen (callUser E cb (logEvent (EffectRun c i cb) w1))
                 (\<lambda>_ w2. Done ()
                    (updHook c i (\<lambda>s. s \<lparr> cleanup := (if isFunction r then r else Undefined),
                                           args := pendingArgs s \<rparr>) w2)))"

definition runPendingEffects :: "env \<Rightarrow> addr \<Rightarrow> world \<Rightarrow> unit outcome" where
  "runPendingEffects E c w =
     (if pendingEffects (comps w ! c) = [] then Done () w
      else andThen (forEachW (runEffectSlot E c) (pendingEffects (comps w ! c)) w)
             (\<lambda>_ w1. Done () (updComp c (\<lambda>k. k \<lparr> pendingEffects := [] \<rparr>) w1)))"

definition runPendingLayoutEffects :: "env \<Rightarrow> addr \<Rightarrow> world \<Rightarrow> unit outcome" where
  "runPendingLayoutEffects E c w =
     (case pendingLayoutEffects (comps w ! c) of
        None \<Rightarrow> Done () w
      | Some l \<Rightarrow>
          andThen (forEachW (runEffectSlot E c) l w)
            (\<lambda>_ w1. Done () (updComp c (\<lambda>k. k \<lparr> pendingLayoutEffects := Some [] \<rparr>) w1)))"

text \<open>
  \<open>runCleanups\<close>: the cleanups of the hook list, front to back; a cleanup that throws
  ends the loop, and then the subscriptions are not cleaned up either.
\<close>

definition runCleanupSlot :: "env \<Rightarrow> addr \<Rightarrow> nat \<Rightarrow> world \<Rightarrow> unit outcome" where
  "runCleanupSlot E c i w =
     (if truthy (cleanup (slotOf w c i))
      then andThen (callUser E (cleanup (slotOf w c i))
                      (logEvent (CleanupRun c i (cleanup (slotOf w c i))) w))
             (\<lambda>_ w1. Done () (updHook c i (\<lambda>s. s \<lparr> cleanup := Undefined \<rparr>) w1))
      else Done () w)"

definition runCleanups :: "env \<Rightarrow> addr \<Rightarrow> world \<Rightarrow> unit outcome" where
  "runCleanups E c w =
     andThen (forEachW (runCleanupSlot E c) [0..<length (hooksList (comps w ! c))] w)
       (\<lambda>_ w1. Done () (cleanupContextSubscriptions c w1))"

text \<open>
  \<open>afterPaint(callback)\<close> arms a frame callback and a timer; whichever fires first
  cancels the other and runs the callback once. The pending callbacks are kept in
  \<open>paintTasks\<close>, each with the commit queue it closes over.
\<close>

definition afterPaint :: "addr list \<Rightarrow> world \<Rightarrow> world" where
  "afterPaint commitQueue w = w \<lparr> paintTasks := paintTasks w @ [commitQueue] \<rparr>"

definition runPaintTask :: "env \<Rightarrow> world \<Rightarrow> unit outcome" where
  "runPaintTask E w =
     (case paintTasks w of
        [] \<Rightarrow> Done () w
      | q # rest \<Rightarrow> forEachW (runPendingEffects E) q (w \<lparr> paintTasks := rest \<rparr>))"

section \<open>The DOM operations the engine calls\<close>

definition SVG_NAMESPACE :: string where
  "SVG_NAMESPACE = ''http://www.w3.org/2000/svg''"

definition XHTML_NAMESPACE :: string where
  "XHTML_NAMESPACE = ''http://www.w3.org/1999/xhtml''"

definition allocNode :: "domnode \<Rightarrow> world \<Rightarrow> addr \<times> world" where
  "allocNode d w = (length (nodes w), w \<lparr> nodes := nodes w @ [d] \<rparr>)"

definition createElement :: "string \<Rightarrow> world \<Rightarrow> addr \<times> world" where
  "createElement tag w = allocNode (newElement tag (JStr XHTML_NAMESPACE)) w"

definition createElementNS :: "jsval \<Rightarrow> string \<Rightarrow> world \<Rightarrow> addr \<times> world" where
  "createElementNS ns tag w = allocNode (newElement tag ns) w"

definition createTextNode :: "jsval \<Rightarrow> world \<Rightarrow> addr \<times> world" where
  "createTextNode txt w = allocNode (newTextNode txt) w"

definition firstChild :: "world \<Rightarrow> addr \<Rightarrow> addr option" where
  "firstChild w d = (case childNodes (nodes w ! d) of [] \<Rightarrow> None | x # _ \<Rightarrow> Some x)"

definition nextSibling :: "world \<Rightarrow> addr \<Rightarrow> addr option" where
  "nextSibling w d =
     (case parentNode (nodes w ! d) of
        None \<Rightarrow> None
      | Some p \<Rightarrow>
          (case dropWhile (\<lambda>x. x \<noteq> d) (childNodes (nodes w ! p)) of
             _ # y # _ \<Rightarrow> Some y
           | _ \<Rightarrow> None))"

definition previousSibling :: "world \<Rightarrow> addr \<Rightarrow> addr option" where
  "previousSibling w d =
     (case parentNode (nodes w ! d) of
        None \<Rightarrow> None
      | Some p \<Rightarrow>
          (case rev (takeWhile (\<lambda>x. x \<noteq> d) (childNodes (nodes w ! p))) of
             [] \<Rightarrow> None
           | y # _ \<Rightarrow> Some y))"

text \<open>\<open>node.remove()\<close>.\<close>

definition nodeRemove :: "addr \<Rightarrow> world \<Rightarrow> world" where
  "nodeRemove d w =
     (case parentNode (nodes w ! d) of
        None \<Rightarrow> w
      | Some p \<Rightarrow>
          updNode d (\<lambda>x. x \<lparr> parentNode := None \<rparr>)
            (updNode p (\<lambda>x. x \<lparr> childNodes := removeAll d (childNodes x) \<rparr>) w))"

text \<open>
  \<open>parent.insertBefore(node, ref)\<close>: a \<open>null\<close> reference appends; a reference that is not
  a child of the parent throws; a node already in the tree is moved.
\<close>

definition insertBefore :: "addr \<Rightarrow> addr \<Rightarrow> addr option \<Rightarrow> world \<Rightarrow> unit outcome" where
  "insertBefore p d refNode w =
     (if (case refNode of None \<Rightarrow> False | Some r \<Rightarrow> r \<notin> set (childNodes (nodes w ! p)))
      then Throw ''NotFoundError: the reference node is not a child of this node'' w
      else
        let r' = (if refNode = Some d then nextSibling w d else refNode);
            w1 = nodeRemove d w;
            cs = childNodes (nodes w1 ! p);
            cs' = (case r' of
                     None \<Rightarrow> cs @ [d]
                   | Some x \<Rightarrow> takeWhile (\<lambda>y. y \<noteq> x) cs @ d # dropWhile (\<lambda>y. y \<noteq> x) cs)
        in Done () (updNode d (\<lambda>x. x \<lparr> parentNode := Some p \<rparr>)
                      (updNode p (\<lambda>x. x \<lparr> childNodes := cs' \<rparr>) w1)))"

definition appendChild :: "addr \<Rightarrow> addr \<Rightarrow> world \<Rightarrow> unit outcome" where
  "appendChild p d w = insertBefore p d None w"

section \<open>children.js: child reconciliation\<close>

text \<open>
  Recursion through the \<open>_children\<close> of vnodes in the store is bounded by a fuel
  argument; running out of fuel is \<open>None\<close> (or \<open>Diverge\<close>).
\<close>

fun firstSome :: "(addr option \<Rightarrow> addr option option) \<Rightarrow> addr list \<Rightarrow> addr option option" where
  "firstSome f [] = Some None"
| "firstSome f (c # cs) =
     (case f (Some c) of
        None \<Rightarrow> None
      | Some (Some d) \<Rightarrow> Some (Some d)
      | Some None \<Rightarrow> firstSome f cs)"

primrec getFirstDom :: "nat \<Rightarrow> world \<Rightarrow> addr option \<Rightarrow> addr option option" where
  "getFirstDom 0 = (\<lambda>w v. None)"
| "getFirstDom (Suc n) = (\<lambda>w v.
     case v of
       None \<Rightarrow> Some None
     | Some a \<Rightarrow>
         (case vdom (vnodes w ! a) of
            Some d \<Rightarrow> Some (Some d)
          | None \<Rightarrow>
              (case vchildren (vnodes w ! a) of
                 None \<Rightarrow> Some None
               | Some cs \<Rightarrow> firstSome (getFirstDom n w) cs)))"

primrec getLastDom :: "nat \<Rightarrow> world \<Rightarrow> addr option \<Rightarrow> addr option option" where
  "getLastDom 0 = (\<lambda>w v. None)"
| "getLastDom (Suc n) = (\<lambda>w v.
     case v of
       None \<Rightarrow> Some None
     | Some a \<Rightarrow>
         (case vdom (vnodes w ! a) of
            Some d \<Rightarrow> Some (Some d)
          | None \<Rightarrow>
              (case vchildren (vnodes w ! a) of
                 None \<Rightarrow> Some None
               | Some cs \<Rightarrow> firstSome (getLastDom n w) (rev cs))))"

fun placeLoop :: "(addr \<Rightarrow> addr option \<Rightarrow> world \<Rightarrow> unit outcome) \<Rightarrow> nat \<Rightarrow> addr list \<Rightarrow>
    addr option \<Rightarrow> world \<Rightarrow> unit outcome" where
  "placeLoop place n [] refDom w = Done () w"
| "placeLoop place n (child # cs) refDom w =
     andThen (place child refDom w) (\<lambda>_ w1.
       case getLastDom n w1 (Some child) of
         None \<Rightarrow> Diverge
       | Some None \<Rightarrow> placeLoop place n cs refDom w1
       | Some (Some l) \<Rightarrow> placeLoop place n cs (nextSibling w1 l) w1)"

primrec placeChild :: "nat \<Rightarrow> addr \<Rightarrow> addr \<Rightarrow> addr option \<Rightarrow> world \<Rightarrow> unit outcome" where
  "placeChild 0 = (\<lambda>parentDom v refDom w. Diverge)"
| "placeChild (Suc n) = (\<lambda>parentDom v refDom w.
     case vdom (vnodes w ! v) of
       Some d \<Rightarrow>
         if parentNode (nodes w ! d) = Some parentDom then insertBefore parentDom d refDom w
         else Done () w
     | None \<Rightarrow>
         (case vchildren (vnodes w ! v) of
            None \<Rightarrow> Done () w
          | Some cs \<Rightarrow> placeLoop (placeChild n parentDom) n cs refDom w))"

definition pushVNode :: "addr list \<Rightarrow> addr \<times> world \<Rightarrow> addr list \<times> world" where
  "pushVNode normalized r = (normalized @ [fst r], snd r)"

definition warnUnknownChild :: "addr list \<times> world \<Rightarrow> addr list \<times> world" where
  "warnUnknownChild s = (fst s, logEvent (ConsoleWarn ''Unknown child type:'') (snd s))"

text \<open>
  \<open>normalizeChildren(children, normalized, parentVNode)\<close>; the third parameter is not
  used by the source. A child that has a \<open>type\<close> is cloned with \<open>createVNode\<close>.
\<close>

fun normalizeChildren :: "jsval \<Rightarrow> addr list \<times> world \<Rightarrow> addr list \<times> world"
  and normalizeList :: "jsval list \<Rightarrow> addr list \<times> world \<Rightarrow> addr list \<times> world" where
  "normalizeChildren Undefined s = s"
| "normalizeChildren Null s = s"
| "normalizeChildren (JBool b) s = s"
| "normalizeChildren (JArr i xs) s = normalizeList xs s"
| "normalizeChildren (JStr t) s = pushVNode (fst s) (createVNode Null (JStr t) Null Null (snd s))"
| "normalizeChildren (JNum x) s =
     pushVNode (fst s) (createVNode Null (JStr (numToString x)) Null Null (snd s))"
| "normalizeChildren (JVNode a) s =
     (let v = vnodes (snd s) ! a in
      if vtype v \<noteq> Undefined
      then pushVNode (fst s) (createVNode (vtype v) (props v) (key v) (ref v) (snd s))
      else warnUnknownChild s)"
| "normalizeChildren (JObj i ps) s =
     (let c = JObj i ps in
      if getProp c ''type'' \<noteq> Undefined
      then pushVNode (fst s)
             (createVNode (getProp c ''type'') (getProp c ''props'') (getProp c ''key'')
                (getProp c ''ref'') (snd s))
      else warnUnknownChild s)"
| "normalizeChildren (JFun f) s = warnUnknownChild s"
| "normalizeChildren JPortal s = warnUnknownChild s"
| "normalizeChildren (JDom d) s = warnUnknownChild s"
| "normalizeChildren (JComp c) s = warnUnknownChild s"
| "normalizeChildren (JRefObj r) s = warnUnknownChild s"
| "normalizeList [] s = s"
| "normalizeList (x # xs) s = normalizeList xs (normalizeChildren x s)"

subsection \<open>Phase 1: matching new children with old children\<close>

text \<open>Keys of the \<open>Map\<close> are compared with SameValueZero.\<close>

definition sameValueZero :: "jsval \<Rightarrow> jsval \<Rightarrow> bool" where
  "sameValueZero a b = (objectIs a b \<or> strictEq a b)"

fun mapSet :: "jsval \<Rightarrow> nat \<Rightarrow> (jsval \<times> nat) list \<Rightarrow> (jsval \<times> nat) list" where
  "mapSet k v [] = [(k, v)]"
| "mapSet k v (e # es) = (if sameValueZero (fst e) k then (fst e, v) # es else e # mapSet k v es)"

fun mapGet :: "jsval \<Rightarrow> (jsval \<times> nat) list \<Rightarrow> nat option" where
  "mapGet k [] = None"
| "mapGet k (e # es) = (if sameValueZero (fst e) k then Some (snd e) else mapGet k es)"

definition indexOldChild :: "vnode list \<Rightarrow> nat \<Rightarrow> (jsval \<times> nat) list \<Rightarrow> (jsval \<times> nat) list" where
  "indexOldChild olds i m = (if \<not> isNullish (key (olds ! i)) then mapSet (key (olds ! i)) i m else m)"

definition oldChildrenByKey :: "vnode list \<Rightarrow> (jsval \<times> nat) list" where
  "oldChildrenByKey olds = fold (indexOldChild olds) [0..<length olds] []"

definition unkeyedCandidate :: "vnode list \<Rightarrow> bool list \<Rightarrow> vnode \<Rightarrow> nat \<Rightarrow> bool" where
  "unkeyedCandidate olds matched newChild j =
     (\<not> matched ! j \<and> isNullish (key (olds ! j)) \<and> strictEq (vtype (olds ! j)) (vtype newChild))"

text \<open>The index \<open>matchedIndex\<close> found for the new child at position \<open>i\<close>; \<open>None\<close> is \<open>-1\<close>.\<close>

definition findMatch :: "vnode list \<Rightarrow> (jsval \<times> nat) list \<Rightarrow> bool list \<Rightarrow> nat \<Rightarrow> vnode \<Rightarrow> nat option" where
  "findMatch olds byKey matched i newChild =
     (if \<not> isNullish (key newChild) then
        (case mapGet (key newChild) byKey of
           None \<Rightarrow> None
         | Some keyIndex \<Rightarrow>
             if \<not> matched ! keyIndex \<and> strictEq (vtype (olds ! keyIndex)) (vtype newChild)
             then Some keyIndex else None)
      else if i < length olds \<and> unkeyedCandidate olds matched newChild i then Some i
      else List.find (unkeyedCandidate olds matched newChild) [0..<length olds])"

text \<open>
  The matching loop: the state is the array \<open>matched\<close> and the matches recorded so far
  (the index of the old child matched with each new child already visited).
\<close>

fun matchLoop :: "vnode list \<Rightarrow> (jsval \<times> nat) list \<Rightarrow> nat \<Rightarrow> vnode list \<Rightarrow>
    bool list \<times> nat option list \<Rightarrow> bool list \<times> nat option list" where
  "matchLoop olds byKey i [] st = st"
| "matchLoop olds byKey i (newChild # rest) st =
     (case findMatch olds byKey (fst st) i newChild of
        None \<Rightarrow> matchLoop olds byKey (Suc i) rest (fst st, snd st @ [None])
      | Some j \<Rightarrow> matchLoop olds byKey (Suc i) rest ((fst st)[j := True], snd st @ [Some j]))"

definition matchChildren :: "vnode list \<Rightarrow> vnode list \<Rightarrow> bool list \<times> nat option list" where
  "matchChildren olds news =
     matchLoop olds (oldChildrenByKey olds) 0 news (replicate (length olds) False, [])"

subsection \<open>Phases 3 and 4: diff, place, unmount\<close>

text \<open>
  The commit queue and the ref queue are arrays shared by one whole render; they are
  threaded through as the result of each call.
\<close>

record refAction =
  raRef :: jsval
  raValue :: jsval
  raOldRef :: jsval

type_synonym queues = "addr list \<times> refAction list"

text \<open>
  The engine passes \<open>diff\<close> and \<open>unmount\<close> to \<open>diffChildren\<close> as arguments. The old
  vnode of a call is \<open>None\<close> when the source passes \<open>null\<close>, \<open>undefined\<close> or the empty
  object \<open>{}\<close> (all of whose fields read as \<open>undefined\<close>).
\<close>

type_synonym diffFn =
  "addr \<Rightarrow> addr option \<Rightarrow> addr option \<Rightarrow> jsval \<Rightarrow> queues \<Rightarrow> addr option \<Rightarrow> world \<Rightarrow> queues outcome"

type_synonym unmountFn = "addr \<Rightarrow> addr \<Rightarrow> bool \<Rightarrow> world \<Rightarrow> unit outcome"

fun oldDomUnmounted :: "nat \<Rightarrow> world \<Rightarrow> addr option \<Rightarrow> addr list \<Rightarrow> bool option" where
  "oldDomUnmounted n w oldDom [] = Some False"
| "oldDomUnmounted n w oldDom (u # us) =
     (case getFirstDom n w (Some u) of
        None \<Rightarrow> None
      | Some d \<Rightarrow> if d = oldDom then Some True else oldDomUnmounted n w oldDom us)"

definition refDomFor :: "nat \<Rightarrow> world \<Rightarrow> addr option \<Rightarrow> addr option \<Rightarrow> addr list \<Rightarrow> addr option option" where
  "refDomFor n w previousNewDom oldDom toUnmount =
     (case previousNewDom of
        Some p \<Rightarrow> Some (nextSibling w p)
      | None \<Rightarrow>
          (case oldDomUnmounted n w oldDom toUnmount of
             None \<Rightarrow> None
           | Some True \<Rightarrow> Some None
           | Some False \<Rightarrow> Some oldDom))"

fun diffPlace :: "diffFn \<Rightarrow> nat \<Rightarrow> addr \<Rightarrow> addr \<Rightarrow> jsval \<Rightarrow> addr option \<Rightarrow> addr list \<Rightarrow>
    (nat \<times> addr \<times> addr option) list \<Rightarrow> queues \<times> addr option \<Rightarrow> world \<Rightarrow> (queues \<times> addr option) outcome" where
  "diffPlace diff n parentDom newParentVNode namespace oldDom toUnmount [] st w = Done st w"
| "diffPlace diff n parentDom newParentVNode namespace oldDom toUnmount ((i, newChild, oldChild) # rest) st w =
     (let w1 = updVNode newChild
                 (\<lambda>v. v \<lparr> vparent := Some newParentVNode,
                           vdepth := vdepth (vnodes w ! newParentVNode) + 1,
                           vindex := Some i \<rparr>) w
      in case refDomFor n w1 (snd st) oldDom toUnmount of
           None \<Rightarrow> Diverge
         | Some refDom \<Rightarrow>
             andThen (diff parentDom (Some newChild) oldChild namespace (fst st) refDom w1) (\<lambda>qs w2.
               case getFirstDom n w2 (Some newChild) of
                 None \<Rightarrow> Diverge
               | Some None \<Rightarrow>
                   diffPlace diff n parentDom newParentVNode namespace oldDom toUnmount rest (qs, snd st) w2
               | Some (Some firstDom) \<Rightarrow>
                   (case getLastDom n w2 (Some newChild) of
                      None \<Rightarrow> Diverge
                    | Some lastDom \<Rightarrow>
                        andThen
                          (if oldChild \<noteq> None \<and> snd st \<noteq> None \<and> previousSibling w2 firstDom \<noteq> snd st
                           then placeChild n parentDom newChild refDom w2 else Done () w2)
                          (\<lambda>_ w3.
                             diffPlace diff n parentDom newParentVNode namespace oldDom toUnmount rest
                               (qs, Some (case lastDom of Some l \<Rightarrow> l | None \<Rightarrow> firstDom)) w3))))"

definition childrenOf :: "world \<Rightarrow> addr option \<Rightarrow> addr list" where
  "childrenOf w v =
     (case v of
        None \<Rightarrow> []
      | Some a \<Rightarrow> (case vchildren (vnodes w ! a) of None \<Rightarrow> [] | Some cs \<Rightarrow> cs))"

definition diffChildren :: "diffFn \<Rightarrow> unmountFn \<Rightarrow> nat \<Rightarrow> addr \<Rightarrow> jsval list \<Rightarrow> addr \<Rightarrow> addr option \<Rightarrow>
    jsval \<Rightarrow> queues \<Rightarrow> addr option \<Rightarrow> world \<Rightarrow> queues outcome" where
  "diffChildren diff unmount n parentDom renderResult newParentVNode oldParentVNode namespace qs oldDom w =
     (let oldChildren = childrenOf w oldParentVNode;
          (newChildren, w1) = normalizeList renderResult ([], w);
          w2 = updVNode newParentVNode (\<lambda>v. v \<lparr> vchildren := Some newChildren \<rparr>) w1
      in if newChildren = [] then
           andThen (forEachW (\<lambda>c. unmount c c False) oldChildren w2) (\<lambda>_ w3. Done qs w3)
         else
           let olds = map (\<lambda>a. vnodes w2 ! a) oldChildren;
               news = map (\<lambda>a. vnodes w2 ! a) newChildren;
               (matched, matchedIndex) = matchChildren olds news;
               matchedOldChildren = map (map_option (\<lambda>j. oldChildren ! j)) matchedIndex;
               toUnmount = map (\<lambda>i. oldChildren ! i)
                             (filter (\<lambda>i. \<not> matched ! i) [0..<length oldChildren])
           in andThen
                (diffPlace diff n parentDom newParentVNode namespace oldDom toUnmount
                   (zip [0..<length newChildren] (zip newChildren matchedOldChildren)) (qs, None) w2)
                (\<lambda>st w3.
                   andThen (forEachW (\<lambda>v. unmount v v False) toUnmount w3) (\<lambda>_ w4. Done (fst st) w4)))"

section \<open>diff.js: the diff engine\<close>

text \<open>
  \<open>applyRef\<close>: a function ref is called (recorded in the trace), a ref object receives
  the value in \<open>current\<close>. The module is strict, so assigning a property on a truthy
  primitive throws; another object receives a property the model does not track.
\<close>

definition applyRef :: "jsval \<Rightarrow> jsval \<Rightarrow> world \<Rightarrow> unit outcome" where
  "applyRef r v w =
     (if \<not> truthy r then Done () w
      else if isFunction r then Done () (logEvent (RefCalled r v) w)
      else (case r of
              JRefObj a \<Rightarrow> Done () (w \<lparr> refObjs := (refObjs w)[a := v] \<rparr>)
            | _ \<Rightarrow> if isObject r then Done () w
                   else Throw ''TypeError: cannot create property current'' w))"

text \<open>
  \<open>unmount(vnode, ancestorVNode, skipRemove)\<close>. First what it does to the vnode itself: the
  option hook, the cleanups of its component, its ref, its DOM node.
\<close>

definition unmountOwn :: "env \<Rightarrow> addr \<Rightarrow> bool \<Rightarrow> world \<Rightarrow> unit outcome" where
  "unmountOwn E v skipRemove w =
     (let w1 = logEvent (HookUnmount v) w
      in andThen (case vcomponent (vnodes w1 ! v) of
                    Some c \<Rightarrow> runCleanups E c w1
                  | None \<Rightarrow> Done () w1)
           (\<lambda>_ w2. andThen (applyRef (ref (vnodes w2 ! v)) Null w2) (\<lambda>_ w3.
              Done () (case vdom (vnodes w3 ! v) of
                         Some d \<Rightarrow> if \<not> skipRemove then nodeRemove d w3 else w3
                       | None \<Rightarrow> w3))))"

definition skipChildRemove :: "world \<Rightarrow> addr \<Rightarrow> bool \<Rightarrow> bool" where
  "skipChildRemove w v skipRemove =
     (if vtype (vnodes w ! v) = JPortal then False
      else (skipRemove \<or> vdom (vnodes w ! v) \<noteq> None))"

definition clearVNode :: "addr \<Rightarrow> world \<Rightarrow> world" where
  "clearVNode v w = updVNode v (\<lambda>x. x \<lparr> vdom := None, vcomponent := None, vchildren := None \<rparr>) w"

primrec unmount :: "nat \<Rightarrow> env \<Rightarrow> addr \<Rightarrow> addr \<Rightarrow> bool \<Rightarrow> world \<Rightarrow> unit outcome" where
  "unmount 0 = (\<lambda>E v ancestorVNode skipRemove w. Diverge)"
| "unmount (Suc n) = (\<lambda>E v ancestorVNode skipRemove w.
     andThen (unmountOwn E v skipRemove w) (\<lambda>_ w4.
       andThen
         (forEachW (\<lambda>c. unmount n E c ancestorVNode (skipChildRemove w4 v skipRemove))
            (childrenOf w4 (Some v)) w4)
         (\<lambda>_ w5. Done () (clearVNode v w5))))"

definition diffTextNode :: "unmountFn \<Rightarrow> addr \<Rightarrow> addr \<Rightarrow> addr option \<Rightarrow> addr option \<Rightarrow> world \<Rightarrow> unit outcome" where
  "diffTextNode unmountF parentDom newVNode oldVNode oldDom w =
     (let newText = props (vnodes w ! newVNode);
          reusable = (case oldVNode of
                        None \<Rightarrow> None
                      | Some ov \<Rightarrow> if vtype (vnodes w ! ov) = Null
                                   then map_option (\<lambda>d. (ov, d)) (vdom (vnodes w ! ov)) else None)
      in case reusable of
           Some (ov, d) \<Rightarrow>
             let w1 = (if \<not> strictEq (props (vnodes w ! ov)) newText
                       then updNode d (\<lambda>x. x \<lparr> nodeValue := newText \<rparr>) w else w)
             in Done () (updVNode newVNode (\<lambda>x. x \<lparr> vdom := Some d \<rparr>) w1)
         | None \<Rightarrow>
             let (d, w1) = createTextNode newText w;
                 w2 = updVNode newVNode (\<lambda>x. x \<lparr> vdom := Some d \<rparr>) w1
             in andThen (case oldDom of
                           Some r \<Rightarrow> insertBefore parentDom d (Some r) w2
                         | None \<Rightarrow> appendChild parentDom d w2)
                  (\<lambda>_ w3. case oldVNode of
                             None \<Rightarrow> Done () w3
                           | Some ov \<Rightarrow> if vdom (vnodes w3 ! ov) \<noteq> None
                                        then unmountF ov ov True w3 else Done () w3))"

definition toChildArray :: "jsval \<Rightarrow> jsval list" where
  "toChildArray r = (if isNullish r then [] else (case r of JArr _ xs \<Rightarrow> xs | _ \<Rightarrow> [r]))"

definition newComponent :: "addr \<Rightarrow> component" where
  "newComponent newVNode =
     \<lparr> cprops = Null, hooksList = [], pendingEffects = [], pendingLayoutEffects = None,
       cvnode = Some newVNode, csubscriptions = None \<rparr>"

definition queueRef :: "world \<Rightarrow> addr \<Rightarrow> addr option \<Rightarrow> jsval \<Rightarrow> queues \<Rightarrow> queues" where
  "queueRef w newVNode oldVNode target qs =
     (if truthy (ref (vnodes w ! newVNode))
      then (fst qs, snd qs @
              [\<lparr> raRef = ref (vnodes w ! newVNode), raValue = target,
                 raOldRef = (case oldVNode of Some ov \<Rightarrow> ref (vnodes w ! ov) | None \<Rightarrow> Null) \<rparr>])
      else qs)"

definition hasPendingWork :: "component \<Rightarrow> bool" where
  "hasPendingWork k = (0 < length (pendingEffects k) \<or> pendingLayoutEffects k \<noteq> None)"

definition diffComponent :: "diffFn \<Rightarrow> unmountFn \<Rightarrow> nat \<Rightarrow> env \<Rightarrow> fnref \<Rightarrow> addr \<Rightarrow> addr \<Rightarrow> addr option \<Rightarrow>
    jsval \<Rightarrow> queues \<Rightarrow> addr option \<Rightarrow> world \<Rightarrow> queues outcome" where
  "diffComponent diff unmountF n E newType parentDom newVNode oldVNode namespace qs oldDom w =
     (let reused = (case oldVNode of
                      None \<Rightarrow> None
                    | Some ov \<Rightarrow> if vtype (vnodes w ! ov) = JFun newType
                                 then vcomponent (vnodes w ! ov) else None);
          instance = (case reused of
                        Some c \<Rightarrow> Done c w
                      | None \<Rightarrow>
                          let w' = w \<lparr> comps := comps w @ [newComponent newVNode] \<rparr>
                          in andThen
                               (case oldVNode of
                                  None \<Rightarrow> Done () w'
                                | Some ov \<Rightarrow> (case vcomponent (vnodes w' ! ov) of
                                                Some oc \<Rightarrow> runCleanups E oc w'
                                              | None \<Rightarrow> Done () w'))
                               (\<lambda>_ w''. Done (length (comps w)) w''))
      in andThen instance (\<lambda>c w1.
           let w2 = updComp c (\<lambda>k. k \<lparr> cprops := props (vnodes w1 ! newVNode),
                                       cvnode := Some newVNode \<rparr>) w1;
               w3 = updVNode newVNode (\<lambda>x. x \<lparr> vcomponent := Some c \<rparr>) w2;
               w4 = logEvent (Rendered c)
                      (logEvent (HookRender newVNode) (setCurrentComponent (Some c) w3))
           in case callComponent E newType (props (vnodes w4 ! newVNode)) w4 of
                Diverge \<Rightarrow> Diverge
              | Throw e w5 \<Rightarrow> Throw e (setCurrentComponent None w5)
              | Done rendered w5 \<Rightarrow>
                  andThen
                    (diffChildren diff unmountF n parentDom (toChildArray rendered) newVNode oldVNode
                       namespace qs oldDom (setCurrentComponent None w5))
                    (\<lambda>qs1 w6.
                       let qs2 = (if hasPendingWork (comps w6 ! c)
                                  then (fst qs1 @ [c], snd qs1) else qs1)
                       in Done (queueRef w6 newVNode oldVNode (JComp c) qs2)
                               (logEvent (HookDiffed newVNode) w6))))"

definition orEmptyObject :: "jsval \<Rightarrow> jsval" where
  "orEmptyObject p = (if truthy p then p else JObj 0 [])"

definition diffElementNode :: "diffFn \<Rightarrow> unmountFn \<Rightarrow> nat \<Rightarrow> string \<Rightarrow> addr \<Rightarrow> addr \<Rightarrow> addr option \<Rightarrow>
    jsval \<Rightarrow> queues \<Rightarrow> addr option \<Rightarrow> world \<Rightarrow> queues outcome" where
  "diffElementNode diff unmountF n newType parentDom newVNode oldVNode namespace0 qs oldDom w =
     (let namespace = (if newType = ''svg'' then JStr SVG_NAMESPACE else namespace0);
          reused = (case oldVNode of
                      None \<Rightarrow> None
                    | Some ov \<Rightarrow> if vtype (vnodes w ! ov) = JStr newType
                                 then vdom (vnodes w ! ov) else None)
      in andThen
           (case reused of
              Some d \<Rightarrow> Done d w
            | None \<Rightarrow>
                let (d, w1) = (if truthy namespace then createElementNS namespace newType w
                               else createElement newType w)
                in andThen (case oldDom of
                              Some r \<Rightarrow> insertBefore parentDom d (Some r) w1
                            | None \<Rightarrow> appendChild parentDom d w1)
                     (\<lambda>_ w2. andThen
                                (case oldVNode of
                                   None \<Rightarrow> Done () w2
                                 | Some ov \<Rightarrow> if vdom (vnodes w2 ! ov) \<noteq> None
                                              then unmountF ov ov False w2 else Done () w2)
                                (\<lambda>_ w3. Done d w3)))
           (\<lambda>d w4.
              let w5 = updVNode newVNode (\<lambda>x. x \<lparr> vdom := Some d \<rparr>) w4;
                  newProps = orEmptyObject (props (vnodes w5 ! newVNode));
                  oldProps = orEmptyObject
                               (case oldVNode of Some ov \<Rightarrow> props (vnodes w5 ! ov) | None \<Rightarrow> Undefined)
              in case diffProps (nodes w5 ! d) newProps oldProps namespace of
                   Inl e \<Rightarrow> Throw e w5
                 | Inr el \<Rightarrow>
                     let w6 = updNode d (\<lambda>_. el) w5
                     in andThen
                          (diffChildren diff unmountF n d (toChildArray (getProp newProps ''children''))
                             newVNode oldVNode namespace qs (firstChild w6 d) w6)
                          (\<lambda>qs1 w7. Done (queueRef w7 newVNode oldVNode (JDom d) qs1)
                                          (logEvent (HookDiffed newVNode) w7))))"

text \<open>\<open>newContainer instanceof Element\<close>.\<close>

definition elementOf :: "world \<Rightarrow> jsval \<Rightarrow> addr option" where
  "elementOf w v = (case v of JDom d \<Rightarrow> if isElement (nodes w ! d) then Some d else None | _ \<Rightarrow> None)"

definition diffPortal :: "diffFn \<Rightarrow> unmountFn \<Rightarrow> nat \<Rightarrow> addr \<Rightarrow> addr \<Rightarrow> addr option \<Rightarrow>
    jsval \<Rightarrow> queues \<Rightarrow> addr option \<Rightarrow> world \<Rightarrow> queues outcome" where
  "diffPortal diff unmountF n parentDom newVNode oldVNode namespace qs oldDom w =
     (let newProps = orEmptyObject (props (vnodes w ! newVNode));
          oldProps = orEmptyObject
                       (case oldVNode of Some ov \<Rightarrow> props (vnodes w ! ov) | None \<Rightarrow> Undefined);
          newContainer = getProp newProps ''_container'';
          oldContainer = getProp oldProps ''_container''
      in case elementOf w newContainer of
           None \<Rightarrow> Done qs (logEvent (ConsoleError ''createPortal: container must be a DOM element'') w)
         | Some cont \<Rightarrow>
             let containerChanged =
                   (case oldVNode of
                      None \<Rightarrow> False
                    | Some ov \<Rightarrow> vtype (vnodes w ! ov) = JPortal \<and> \<not> strictEq oldContainer newContainer)
             in andThen
                  (if containerChanged
                   then forEachW (\<lambda>c. unmountF c c False) (childrenOf w oldVNode) w
                   else Done () w)
                  (\<lambda>_ w1.
                     let portalNamespace =
                           (if namespaceURI (nodes w1 ! cont) = JStr SVG_NAMESPACE
                            then JStr SVG_NAMESPACE else Null)
                     in andThen
                          (diffChildren diff unmountF n cont (toChildArray (getProp newProps ''children''))
                             newVNode (if containerChanged then None else oldVNode) portalNamespace qs
                             (if containerChanged then firstChild w1 cont
                              else (case oldVNode of Some _ \<Rightarrow> None | None \<Rightarrow> firstChild w1 cont))
                             w1)
                          (\<lambda>qs1 w2.
                             let w3 = updVNode newVNode (\<lambda>x. x \<lparr> vdom := None \<rparr>) w2
                             in Done (queueRef w3 newVNode oldVNode (JDom cont) qs1)
                                     (logEvent (HookDiffed newVNode) w3))))"

text \<open>The dispatch of \<open>diff\<close>, with the recursive calls as parameters.\<close>

definition diffStep :: "diffFn \<Rightarrow> unmountFn \<Rightarrow> nat \<Rightarrow> env \<Rightarrow> diffFn" where
  "diffStep diff unmountF n E parentDom newVNode oldVNode namespace qs oldDom w =
     (case newVNode of
        None \<Rightarrow>
          (case oldVNode of
             Some ov \<Rightarrow> andThen (unmountF ov ov False w) (\<lambda>_ w1. Done qs w1)
           | None \<Rightarrow> Done qs w)
      | Some nv \<Rightarrow>
          let w1 = logEvent (HookDiff nv) w in
          (case vtype (vnodes w1 ! nv) of
             Null \<Rightarrow> andThen (diffTextNode unmountF parentDom nv oldVNode oldDom w1) (\<lambda>_ w2. Done qs w2)
           | JFun f \<Rightarrow> diffComponent diff unmountF n E f parentDom nv oldVNode namespace qs oldDom w1
           | JPortal \<Rightarrow> diffPortal diff unmountF n parentDom nv oldVNode namespace qs oldDom w1
           | JStr tag \<Rightarrow> diffElementNode diff unmountF n tag parentDom nv oldVNode namespace qs oldDom w1
           | _ \<Rightarrow> Done qs (logEvent (ConsoleWarn ''Unknown vnode type:'') w1)))"

primrec diff :: "nat \<Rightarrow> env \<Rightarrow> diffFn" where
  "diff 0 = (\<lambda>E parentDom newVNode oldVNode namespace qs oldDom w. Diverge)"
| "diff (Suc n) = (\<lambda>E. diffStep (diff n E) (unmount n E) n E)"

definition applyRefAction :: "refAction \<Rightarrow> world \<Rightarrow> unit outcome" where
  "applyRefAction a w =
     andThen (if truthy (raOldRef a) \<and> \<not> strictEq (raOldRef a) (raRef a)
              then applyRef (raOldRef a) Null w else Done () w)
       (\<lambda>_ w1. applyRef (raRef a) (raValue a) w1)"

definition commitRoot :: "env \<Rightarrow> queues \<Rightarrow> world \<Rightarrow> unit outcome" where
  "commitRoot E qs w =
     andThen (forEachW applyRefAction (snd qs) w) (\<lambda>_ w1.
       andThen (forEachW (runPendingLayoutEffects E) (fst qs) w1) (\<lambda>_ w2.
         Done () (if 0 < length (fst qs) then afterPaint (fst qs) w2 else w2)))"

section \<open>render.js\<close>

text \<open>
  \<open>render(vnode, container)\<close>; the option hooks \<open>_root\<close> and \<open>_commit\<close> are not installed.
  \<open>n\<close> bounds the depth of the recursion of \<open>diff\<close>.
\<close>

definition render :: "nat \<Rightarrow> env \<Rightarrow> jsval \<Rightarrow> addr \<Rightarrow> world \<Rightarrow> unit outcome" where
  "render n E vnode' container w =
     (let oldVNode = rootVNode (nodes w ! container);
          (pid, w1) = freshId w;
          (newVNode, w2) = createVNode (JFun Fragment) (JObj pid [(''children'', vnode')]) Null Null w1;
          w3 = updVNode newVNode (\<lambda>x. x \<lparr> vdom := Some container \<rparr>) w2;
          w4 = updNode container (\<lambda>x. x \<lparr> rootVNode := Some newVNode \<rparr>) w3;
          namespace = (if namespaceURI (nodes w4 ! container) = JStr SVG_NAMESPACE
                       then JStr SVG_NAMESPACE else Null)
      in andThen (diff n E container (Some newVNode) oldVNode namespace ([], []) (firstChild w4 container) w4)
           (\<lambda>qs w5. commitRoot E qs w5))"

section \<open>scheduler.js: draining the queue\<close>

partial_function (option) getParentDom :: "world \<Rightarrow> addr option \<Rightarrow> addr option option" where
  "getParentDom w parent =
     (case parent of
        None \<Rightarrow> Some None
      | Some p \<Rightarrow>
          (case vdom (vnodes w ! p) of
             Some d \<Rightarrow> Some (Some d)
           | None \<Rightarrow> getParentDom w (vparent (vnodes w ! p))))"

declare getParentDom.simps [code]

definition renderComponent :: "nat \<Rightarrow> env \<Rightarrow> addr \<Rightarrow> world \<Rightarrow> unit outcome" where
  "renderComponent n E c w =
     (case cvnode (comps w ! c) of
        None \<Rightarrow> Done () w
      | Some v \<Rightarrow>
          (case getParentDom w (vparent (vnodes w ! v)) of
             None \<Rightarrow> Diverge
           | Some None \<Rightarrow> Done () w
           | Some (Some parentDom) \<Rightarrow>
               let namespace = (if namespaceURI (nodes w ! parentDom) = JStr SVG_NAMESPACE
                                then JStr SVG_NAMESPACE else Null);
                   w1 = logEvent (Rendered c) (setCurrentComponent (Some c) w)
               in (case vtype (vnodes w1 ! v) of
                     JFun f \<Rightarrow>
                       (case callComponent E f (cprops (comps w1 ! c)) w1 of
                          Diverge \<Rightarrow> Diverge
                        | Throw e w2 \<Rightarrow> Throw e (setCurrentComponent None w2)
                        | Done rendered w2 \<Rightarrow>
                            let w3 = setCurrentComponent None w2 in
                            (case getFirstDom n w3 (Some v) of
                               None \<Rightarrow> Diverge
                             | Some oldDom \<Rightarrow>
                                 andThen
                                   (diffChildren (diff n E) (unmount n E) n parentDom (toChildArray rendered)
                                      v (Some v) namespace ([], []) oldDom w3)
                                   (\<lambda>qs w4.
                                      commitRoot E
                                        (if hasPendingWork (comps w4 ! c) then (fst qs @ [c], snd qs) else qs)
                                        w4)))
                   | _ \<Rightarrow> Throw ''TypeError: vnode.type is not a function'' (setCurrentComponent None w1))))"

definition depthOf :: "world \<Rightarrow> addr \<Rightarrow> nat" where
  "depthOf w c = (case cvnode (comps w ! c) of Some v \<Rightarrow> vdepth (vnodes w ! v) | None \<Rightarrow> 0)"

text \<open>
  The loop \<open>while ((component = renderQueue.shift()))\<close>; \<open>rc\<close> is \<open>renderComponent\<close>. The
  fuel bounds the number of iterations: a component that enqueues itself while it
  renders keeps the loop running.
\<close>

primrec drainQueue :: "nat \<Rightarrow> (addr \<Rightarrow> world \<Rightarrow> unit outcome) \<Rightarrow> world \<Rightarrow> unit outcome" where
  "drainQueue 0 = (\<lambda>rc w. Diverge)"
| "drainQueue (Suc n) = (\<lambda>rc w.
     case renderQueue w of
       [] \<Rightarrow> Done () w
     | c # rest \<Rightarrow>
         let w1 = w \<lparr> renderQueue := rest \<rparr>
         in if cvnode (comps w1 ! c) = None then drainQueue n rc w1
            else andThen (rc c w1) (\<lambda>_ w2. drainQueue n rc w2))"

definition processRenderQueue :: "nat \<Rightarrow> (addr \<Rightarrow> world \<Rightarrow> unit outcome) \<Rightarrow> world \<Rightarrow> unit outcome" where
  "processRenderQueue n rc w =
     (let w1 = w \<lparr> scheduled := False \<rparr>;
          w2 = w1 \<lparr> renderQueue := sort_key (depthOf w1) (renderQueue w1) \<rparr>
      in drainQueue n rc w2)"

text \<open>One queued microtask runs: the callback given to \<open>queueMicrotask\<close>.\<close>

definition runMicrotask :: "nat \<Rightarrow> env \<Rightarrow> world \<Rightarrow> unit outcome" where
  "runMicrotask n E w =
     (if microtasks w = 0 then Done () w
      else processRenderQueue n (renderComponent n E) (w \<lparr> microtasks := microtasks w - 1 \<rparr>))"

section \<open>Reading outcomes\<close>

fun worldOf :: "'a outcome \<Rightarrow> world option" where
  "worldOf (Done x w) = Some w"
| "worldOf (Throw e w) = None"
| "worldOf Diverge = None"

fun returned :: "'a outcome \<Rightarrow> 'a option" where
  "returned (Done x w) = Some x"
| "returned (Throw e w) = None"
| "returned Diverge = None"


section \<open>Notions used to state the properties\<close>




text \<open>
  The cleanup calls of the slots below \<open>n\<close> of an instance, in ascending slot order: one
  event for each slot that holds a cleanup.
\<close>

definition cleanupsUpTo :: "addr \<Rightarrow> world \<Rightarrow> nat \<Rightarrow> event list" where
  "cleanupsUpTo c w n =
     map (\<lambda>i. CleanupRun c i (cleanup (slotOf w c i)))
       (filter (\<lambda>i. truthy (cleanup (slotOf w c i))) [0..<n])"

text \<open>
  The first slot of an instance whose cleanup throws when called, if there is one; what
  a slot's cleanup call leaves when the cleanup returns; the world in which an outcome
  ends, returned or thrown; and the subscriber set of a provider vnode as a list.
\<close>

definition throwingSlot :: "env \<Rightarrow> addr \<Rightarrow> world \<Rightarrow> nat \<Rightarrow> bool" where
  "throwingSlot E c w i =
     (truthy (cleanup (slotOf w c i)) \<and> throws E (cleanup (slotOf w c i)) \<noteq> None)"

definition firstThrowing :: "env \<Rightarrow> addr \<Rightarrow> world \<Rightarrow> nat option" where
  "firstThrowing E c w = List.find (throwingSlot E c w) [0..<length (hooksList (comps w ! c))]"

definition clearSlot :: "addr \<Rightarrow> nat \<Rightarrow> world \<Rightarrow> world" where
  "clearSlot c i w =
     (if truthy (cleanup (slotOf w c i))
      then updHook c i (\<lambda>s. s \<lparr> cleanup := Undefined \<rparr>)
             (logEvent (CleanupRun c i (cleanup (slotOf w c i))) w)
      else w)"


definition subscribers :: "world \<Rightarrow> addr \<Rightarrow> addr list" where
  "subscribers w p = (case contextSubscriptions (vnodes w ! p) of None \<Rightarrow> [] | Some l \<Rightarrow> l)"


text \<open>The trace of \<open>w'\<close> continues the trace of \<open>w\<close>.\<close>

definition extends :: "world \<Rightarrow> world \<Rightarrow> bool" where
  "extends w w' = (\<exists>evs. trace w' = trace w @ evs)"



definition oneMounted :: world where
  "oneMounted =
     emptyWorld \<lparr> vnodes := [(blankVNode (JFun (UserFn 0)) (JObj 0 []) Null Null) \<lparr> vcomponent := Some 0 \<rparr>],
                  comps := [newComponent 0] \<rparr>"



text \<open>The number of times the effect callback of a slot has been invoked so far.\<close>

definition isEffectRunOf :: "addr \<Rightarrow> nat \<Rightarrow> event \<Rightarrow> bool" where
  "isEffectRunOf c i e = (case e of EffectRun c' i' f \<Rightarrow> c' = c \<and> i' = i | _ \<Rightarrow> False)"

definition effectRuns :: "addr \<Rightarrow> nat \<Rightarrow> world \<Rightarrow> nat" where
  "effectRuns c i w = length (filter (isEffectRunOf c i) (trace w))"

text \<open>
  One render of a component whose body is the single call \<open>useEffect(callback, deps)\<close>:
  what \<open>diffComponent\<close> does around the body.
\<close>

definition renderWithEffect :: "addr \<Rightarrow> jsval \<Rightarrow> jsval list option \<Rightarrow> world \<Rightarrow> unit outcome" where
  "renderWithEffect c callback deps w =
     andThen (useEffect callback deps (setCurrentComponent (Some c) w))
       (\<lambda>_ w1. Done () (setCurrentComponent None w1))"

text \<open>
  The component is rendered twice with the same empty dependency list before the
  post-paint callback of the first render fires; then the callback fires.
\<close>

definition noCleanup :: env where
  "noCleanup = \<lparr> body = (\<lambda>k p w. Done Null w), effectResult = (\<lambda>f. Undefined),
                 updater = (\<lambda>f v. v),
       throws = (\<lambda>f. None) \<rparr>"

definition twoRendersBeforePaint :: "unit outcome" where
  "twoRendersBeforePaint =
     andThen (renderWithEffect 0 (JFun (UserFn 1)) (Some []) oneMounted) (\<lambda>_ w1.
       andThen (renderWithEffect 0 (JFun (UserFn 1)) (Some []) w1) (\<lambda>_ w2.
         runPendingEffects noCleanup 0 w2))"

text \<open>The same two renders, each followed by its post-paint callback.\<close>

definition twoRendersEachPainted :: "unit outcome" where
  "twoRendersEachPainted =
     andThen (renderWithEffect 0 (JFun (UserFn 1)) (Some []) oneMounted) (\<lambda>_ w1.
       andThen (runPendingEffects noCleanup 0 w1) (\<lambda>_ w2.
         andThen (renderWithEffect 0 (JFun (UserFn 1)) (Some []) w2) (\<lambda>_ w3.
           runPendingEffects noCleanup 0 w3)))"

text \<open>A portal vnode whose container is a string, not an element.\<close>

definition badPortal :: world where
  "badPortal =
     emptyWorld \<lparr> vnodes := [blankVNode JPortal
                               (JObj 0 [(''children'', JStr ''x''), (''_container'', JStr ''#modal'')])
                               Null Null],
                  nodes := [newElement ''div'' (JStr XHTML_NAMESPACE)] \<rparr>"

definition ThemeContext :: jscontext where
  "ThemeContext = \<lparr> ctxId = 0, defaultValue = JStr ''light'' \<rparr>"

text \<open>
  Notions for the frame of \<open>unmount\<close> and of \<open>diff\<close>: two vnode records that differ at
  most in their subscriber set; a vnode whose reconciliation slots have been nulled; what
  a run of \<open>unmount\<close> may do to a world, whatever the vnode: the trace grows, a vnode is
  left alone (up to its subscriber set) or nulled, subscriber sets only lose members, a
  DOM node keeps its parent or loses it, and no container changes its cached root.
\<close>

definition sameButSubs :: "vnode \<Rightarrow> vnode \<Rightarrow> bool" where
  "sameButSubs v v' = (v' \<lparr> contextSubscriptions := contextSubscriptions v \<rparr> = v)"

definition cleared :: "world \<Rightarrow> addr \<Rightarrow> bool" where
  "cleared w a =
     (vdom (vnodes w ! a) = None \<and> vcomponent (vnodes w ! a) = None \<and> vchildren (vnodes w ! a) = None)"

definition unmountStep :: "world \<Rightarrow> world \<Rightarrow> bool" where
  "unmountStep w w' =
     (extends w w'
      \<and> length (vnodes w') = length (vnodes w)
      \<and> (\<forall>a. sameButSubs (vnodes w ! a) (vnodes w' ! a)
              \<or> (cleared w' a \<and> a < length (vnodes w)))
      \<and> (\<forall>p. set (subscribers w' p) \<subseteq> set (subscribers w p))
      \<and> length (nodes w') = length (nodes w)
      \<and> (\<forall>d. rootVNode (nodes w' ! d) = rootVNode (nodes w ! d))
      \<and> (\<forall>d. parentNode (nodes w' ! d) = parentNode (nodes w ! d)
              \<or> parentNode (nodes w' ! d) = None))"

text \<open>
  A set \<open>X\<close> of vnodes that the vnodes outside it do not reach: the \<open>_children\<close> of a vnode
  outside \<open>X\<close> are vnodes of the store outside \<open>X\<close>. The caller's vnodes are such a set when
  no vnode of the rendered tree has one of them among its \<open>_children\<close>; so are the vnodes
  from an address on, when the older ones only have older children.
\<close>

definition outsideClosed :: "addr set \<Rightarrow> world \<Rightarrow> bool" where
  "outsideClosed X w =
     (\<forall>b < length (vnodes w). b \<notin> X \<longrightarrow>
        (\<forall>c \<in> set (childrenOf w (Some b)). c < length (vnodes w) \<and> c \<notin> X))"

text \<open>
  A page whose only node is the container (node 0), a first render of a text into it,
  and the two calls \<open>render('hi', container); render(null, container)\<close>.
\<close>

definition page :: world where
  "page = emptyWorld \<lparr> nodes := [newElement ''div'' (JStr XHTML_NAMESPACE)] \<rparr>"

definition textMounted :: world where
  "textMounted = (case render 5 noCleanup (JStr ''hi'') 0 page of Done _ w \<Rightarrow> w | _ \<Rightarrow> page)"

definition mountThenUnmount :: "unit outcome" where
  "mountThenUnmount = render 5 noCleanup Null 0 textMounted"

text \<open>
  A vnode as \<open>createVNode\<close> leaves it: its reconciliation slots are unset. And a store that
  holds one vnode \<open>li\<close> created by the caller.
\<close>

definition isBlank :: "vnode \<Rightarrow> bool" where
  "isBlank v = (v = blankVNode (vtype v) (props v) (key v) (ref v))"



text \<open>
  What normalization does to its state (the output array and the store): it appends
  fresh, blank vnodes to the store, pushes their addresses, and leaves the rest alone.
\<close>

definition appendsClones :: "addr list \<times> world \<Rightarrow> addr list \<times> world \<Rightarrow> bool" where
  "appendsClones s s' =
     (\<exists>news. vnodes (snd s') = vnodes (snd s) @ news
           \<and> fst s' = fst s @ [length (vnodes (snd s)) ..< length (vnodes (snd s)) + length news]
           \<and> list_all isBlank news
           \<and> comps (snd s') = comps (snd s)
           \<and> nodes (snd s') = nodes (snd s))"

text \<open>
  The scenario of \<open>tests/context.test.js\<close>, without the wrapping \<open>App\<close>: the tree
  \<open>h(ThemeContext.Provider, { value }, h(Consumer))\<close> is rendered into the container.
  \<open>Consumer\<close> (function 1) calls \<open>useContext(ThemeContext)\<close>, stores what it receives in
  the outer variable \<open>receivedValue\<close> (cell 0 of \<open>refObjs\<close>) and returns \<open>null\<close>.
\<close>

definition consumerBody :: "jsval \<Rightarrow> world \<Rightarrow> jsval outcome" where
  "consumerBody p w =
     andThen (useContext ThemeContext w) (\<lambda>received w1.
       Done Null (w1 \<lparr> refObjs := (refObjs w1)[0 := received] \<rparr>))"

definition readsContext :: env where
  "readsContext =
     \<lparr> body = (\<lambda>k p w. consumerBody p w),
       effectResult = (\<lambda>f. Undefined),
       updater = (\<lambda>f v. v),
       throws = (\<lambda>f. None) \<rparr>"

definition renderProvider :: "jsval \<Rightarrow> world \<Rightarrow> unit outcome" where
  "renderProvider v w =
     (let (consumer, w1) = h (JFun (UserFn 1)) Null [] w;
          (provider, w2) = h (JFun (Provider 0)) (JObj 0 [(''value'', v)]) [JVNode consumer] w1
      in render 5 readsContext (JVNode provider) 0 w2)"

definition contextPage :: world where
  "contextPage = page \<lparr> refObjs := [JStr ''unset''] \<rparr>"

definition providerMounted :: "unit outcome" where
  "providerMounted = renderProvider (JStr ''provided-value'') contextPage"

definition providerRerendered :: "unit outcome" where
  "providerRerendered = andThen providerMounted (\<lambda>_ w. renderProvider (JStr ''changed'') w)"

text \<open>
  A parent and its child, each holding one state: \<open>Parent\<close> (function 0) calls
  \<open>useState(0)\<close> and returns \<open>h(Child)\<close>; \<open>Child\<close> (function 1) calls \<open>useState(0)\<close> and
  returns \<open>null\<close>. After the mount the instances are: 0 the root Fragment, 1 the parent,
  2 the child. In one turn the child's setter and then the parent's setter are called
  with 1; then the microtask runs.
\<close>

definition parentBody :: "jsval \<Rightarrow> world \<Rightarrow> jsval outcome" where
  "parentBody p w =
     andThen (useState noCleanup (JNum (Fin 0)) w) (\<lambda>_ w1.
       let (child, w2) = h (JFun (UserFn 1)) Null [] w1 in Done (JVNode child) w2)"

definition childBody :: "jsval \<Rightarrow> world \<Rightarrow> jsval outcome" where
  "childBody p w = andThen (useState noCleanup (JNum (Fin 0)) w) (\<lambda>_ w1. Done Null w1)"

definition counters :: env where
  "counters =
     \<lparr> body = (\<lambda>k p w. if k = 0 then parentBody p w else childBody p w),
       effectResult = (\<lambda>f. Undefined),
       updater = (\<lambda>f v. v),
       throws = (\<lambda>f. None) \<rparr>"

definition countersMounted :: "unit outcome" where
  "countersMounted =
     (let (app, w1) = h (JFun (UserFn 0)) Null [] page
      in render 5 counters (JVNode app) 0 w1)"

definition bothQueued :: "unit outcome" where
  "bothQueued =
     andThen countersMounted (\<lambda>_ w.
       Done () (setState counters 1 0 (JNum (Fin 1)) (setState counters 2 0 (JNum (Fin 1)) w)))"

definition bothUpdated :: "unit outcome" where
  "bothUpdated = andThen bothQueued (\<lambda>_ w. runMicrotask 5 counters w)"

definition onlyChildUpdated :: "unit outcome" where
  "onlyChildUpdated =
     andThen countersMounted (\<lambda>_ w.
       runMicrotask 5 counters
         (setState counters 2 0 (JNum (Fin 2)) (setState counters 2 0 (JNum (Fin 1)) w)))"

text \<open>The instances rendered so far, in order, by the tree diff or by the scheduler.\<close>

definition renders :: "world \<Rightarrow> addr list" where
  "renders w = concat (map (\<lambda>e. case e of Rendered c \<Rightarrow> [c] | _ \<Rightarrow> []) (trace w))"


section \<open>Basic facts about the stores\<close>

lemma logEvent_fields [simp]:
  "vnodes (logEvent e w) = vnodes w"
  "comps (logEvent e w) = comps w"
  "nodes (logEvent e w) = nodes w"
  "refObjs (logEvent e w) = refObjs w"
  "renderQueue (logEvent e w) = renderQueue w"
  "scheduled (logEvent e w) = scheduled w"
  "microtasks (logEvent e w) = microtasks w"
  "currentComponent (logEvent e w) = currentComponent w"
  "currentIndex (logEvent e w) = currentIndex w"
  "trace (logEvent e w) = trace w @ [e]"
  by (simp_all add: logEvent_def)

lemma updVNode_fields [simp]:
  "comps (updVNode a f w) = comps w"
  "nodes (updVNode a f w) = nodes w"
  "refObjs (updVNode a f w) = refObjs w"
  "renderQueue (updVNode a f w) = renderQueue w"
  "scheduled (updVNode a f w) = scheduled w"
  "microtasks (updVNode a f w) = microtasks w"
  "currentComponent (updVNode a f w) = currentComponent w"
  "currentIndex (updVNode a f w) = currentIndex w"
  "trace (updVNode a f w) = trace w"
  "length (vnodes (updVNode a f w)) = length (vnodes w)"
  by (simp_all add: updVNode_def)

lemma updComp_fields [simp]:
  "vnodes (updComp c f w) = vnodes w"
  "nodes (updComp c f w) = nodes w"
  "refObjs (updComp c f w) = refObjs w"
  "renderQueue (updComp c f w) = renderQueue w"
  "scheduled (updComp c f w) = scheduled w"
  "microtasks (updComp c f w) = microtasks w"
  "currentComponent (updComp c f w) = currentComponent w"
  "currentIndex (updComp c f w) = currentIndex w"
  "trace (updComp c f w) = trace w"
  "length (comps (updComp c f w)) = length (comps w)"
  by (simp_all add: updComp_def)

lemma updNode_fields [simp]:
  "vnodes (updNode d f w) = vnodes w"
  "comps (updNode d f w) = comps w"
  "refObjs (updNode d f w) = refObjs w"
  "renderQueue (updNode d f w) = renderQueue w"
  "scheduled (updNode d f w) = scheduled w"
  "microtasks (updNode d f w) = microtasks w"
  "currentComponent (updNode d f w) = currentComponent w"
  "currentIndex (updNode d f w) = currentIndex w"
  "trace (updNode d f w) = trace w"
  "length (nodes (updNode d f w)) = length (nodes w)"
  by (simp_all add: updNode_def)

lemma updHook_fields [simp]:
  "vnodes (updHook c i f w) = vnodes w"
  "nodes (updHook c i f w) = nodes w"
  "refObjs (updHook c i f w) = refObjs w"
  "renderQueue (updHook c i f w) = renderQueue w"
  "scheduled (updHook c i f w) = scheduled w"
  "microtasks (updHook c i f w) = microtasks w"
  "currentComponent (updHook c i f w) = currentComponent w"
  "currentIndex (updHook c i f w) = currentIndex w"
  "trace (updHook c i f w) = trace w"
  "length (comps (updHook c i f w)) = length (comps w)"
  by (simp_all add: updHook_def)

lemma vnodes_updVNode_nth:
  "vnodes (updVNode a f w) ! b =
     (if b = a \<and> a < length (vnodes w) then f (vnodes w ! a) else vnodes w ! b)"
  by (cases "a < length (vnodes w)") (auto simp: updVNode_def list_update_beyond)

lemma comps_updComp_nth:
  "comps (updComp c f w) ! k =
     (if k = c \<and> c < length (comps w) then f (comps w ! c) else comps w ! k)"
  by (cases "c < length (comps w)") (auto simp: updComp_def list_update_beyond)

lemma nodes_updNode_nth:
  "nodes (updNode d f w) ! k =
     (if k = d \<and> d < length (nodes w) then f (nodes w ! d) else nodes w ! k)"
  by (cases "d < length (nodes w)") (auto simp: updNode_def list_update_beyond)

lemma slotOf_logEvent [simp]: "slotOf (logEvent e w) c j = slotOf w c j"
  by (simp add: slotOf_def)

lemma elementOf_logEvent [simp]: "elementOf (logEvent e w) v = elementOf w v"
  by (simp add: elementOf_def split: jsval.splits)

lemma andThen_Done:
  "andThen m f = Done y w' \<Longrightarrow> \<exists>x w1. m = Done x w1 \<and> f x w1 = Done y w'"
  by (cases m) (auto simp: andThen_def)

lemma andThen_simps [simp]:
  "andThen (Done x w) f = f x w"
  "andThen (Throw e w) f = Throw e w"
  "andThen Diverge f = Diverge"
  by (simp_all add: andThen_def)

section \<open>The cleanup loop\<close>

lemma slotOf_updHook:
  "c < length (comps w) \<Longrightarrow> i < length (hooksList (comps w ! c)) \<Longrightarrow>
   slotOf (updHook c i f w) c j = (if j = i then f (slotOf w c i) else slotOf w c j)"
  by (simp add: slotOf_def updHook_def updComp_def)










section \<open>The frame of unmount\<close>



lemma extends_refl [simp]: "extends w w"
  by (simp add: extends_def)


lemma sameButSubs_refl [simp]: "sameButSubs v v"
  by (simp add: sameButSubs_def)



lemma unmountStep_refl [simp]: "unmountStep w w"
  by (simp add: unmountStep_def)











lemma clearSlot_fields [simp]:
  "vnodes (clearSlot c i w) = vnodes w" "nodes (clearSlot c i w) = nodes w"
  by (simp_all add: clearSlot_def)

lemma clearSlot_extends: "extends w (clearSlot c i w)"
  by (simp add: clearSlot_def extends_def)



lemma callUser_noDiverge [simp]: "callUser E f w \<noteq> Diverge"
  by (simp add: callUser_def split: option.splits)














section \<open>Cleanups at unmount (C3)\<close>




lemma cleanupsUpTo_logEvent [simp]: "cleanupsUpTo c (logEvent e w) n = cleanupsUpTo c w n"
  by (simp add: cleanupsUpTo_def)

lemma firstThrowing_logEvent [simp]: "firstThrowing E c (logEvent e w) = firstThrowing E c w"
  by (simp add: firstThrowing_def throwingSlot_def[abs_def])








section \<open>The property writer (C4)\<close>

lemma foldE_pres:
  assumes "\<And>x s s'. f x s = Inr s' \<Longrightarrow> P s \<Longrightarrow> P s'"
  shows "foldE f xs s = Inr s' \<Longrightarrow> P s \<Longrightarrow> P s'"
  using assms by (induction xs arbitrary: s) (auto split: sum.splits)

lemma fold_pres:
  assumes "\<And>x s. P s \<Longrightarrow> P (f x s)"
  shows "P s \<Longrightarrow> P (fold f xs s)"
  using assms by (induction xs arbitrary: s) auto

lemma setStyleProperty_events:
  "listeners (setStyleProperty n v el) = listeners el \<and> hostListeners (setStyleProperty n v el) = hostListeners el"
  by (simp add: setStyleProperty_def Let_def)

lemma setStyle_events:
  assumes "setStyle el v old = Inr el'"
  shows "listeners el' = listeners el \<and> hostListeners el' = hostListeners el"
proof -
  let ?P = "\<lambda>e. listeners e = listeners el \<and> hostListeners e = hostListeners el"
  have clear: "\<And>x s s'. clearOldStyle v x s = Inr s' \<Longrightarrow> ?P s \<Longrightarrow> ?P s'"
    by (auto simp: clearOldStyle_def setStyleProperty_events split: if_splits)
  have app: "\<And>x s. ?P s \<Longrightarrow> ?P (applyNewStyle old x s)"
    by (simp add: applyNewStyle_def setStyleProperty_events)
  show ?thesis
  proof (cases "isString v")
    case True
    with assms show ?thesis by (auto simp: setStyle_def)
  next
    case False
    then obtain el1 where
      e1: "(if isObject old then foldE (clearOldStyle v) (map fst (ownProps old)) el
            else if isString old then Inr (el \<lparr> cssText := JStr [] \<rparr>) else Inr el) = Inr el1"
      and e2: "el' = (if isObject v then fold (applyNewStyle old) (ownProps v) el1 else el1)"
      using assms by (auto simp: setStyle_def split: sum.splits)
    have p1: "?P el1"
    proof (cases "isObject old")
      case True
      with e1 have "foldE (clearOldStyle v) (map fst (ownProps old)) el = Inr el1" by simp
      from foldE_pres[where f = "clearOldStyle v" and P = ?P, OF clear this] show ?thesis
        by simp
    next
      case False
      with e1 show ?thesis by (auto split: if_splits)
    qed
    have "?P (fold (applyNewStyle old) (ownProps v) el1)"
      by (rule fold_pres[where P = ?P and f = "applyNewStyle old", OF app p1])
    with p1 show ?thesis
      unfolding e2 by simp
  qed
qed

lemma setProperty_alt:
  "setProperty el name v oldValue namespace =
     (if name = ''children'' then Inr el
      else if name = ''style'' then setStyle el v oldValue
      else if beginsWithOn name then Inr (setEventHandler el name v oldValue)
      else if name = ''dangerouslySetInnerHTML''
        then Inr (if truthy v \<and> \<not> isNullish (getProp v ''__html'')
                  then el \<lparr> innerHTML := getProp v ''__html'' \<rparr> else el)
      else if name = ''ref'' then Inr el
      else if name = ''key'' then Inr el
      else if truthy namespace then Inr (setAttributeSVG el name v)
      else Inr (setPropertyOrAttribute el name v))"
  unfolding setProperty_def beginsWithOn_def by (rule refl)

lemma beginsWithOn_not_special:
  "beginsWithOn name \<Longrightarrow> name \<noteq> ''children'' \<and> name \<noteq> ''style''"
  unfolding beginsWithOn_def by (cases name) auto

lemma map_of_update_other:
  "k \<noteq> k' \<Longrightarrow> map_of (AList.update k v al) k' = map_of al k'"
  by (simp add: update_conv')

text \<open>
  C4, as the code has it. \<open>setProperty\<close> takes the event-listener path exactly when the name
  begins with the two characters \<open>on\<close>, whatever follows. The event name is then the rest
  of the name in lower case: the handler is stored under that key of the element's
  listener map (the other keys keep their handlers); the host is asked to listen for
  that event when a handler arrives where there was none, and to stop listening for
  it when the handler is taken away; nothing else of the element changes, so no
  attribute or property is written. A name that does not begin with \<open>on\<close> never touches
  the listener map or the host's listeners; unless it is one of the names handled apart
  (\<open>children\<close>, \<open>style\<close>, \<open>dangerouslySetInnerHTML\<close>, \<open>ref\<close>, \<open>key\<close>) it is written by the
  attribute writer for SVG or by the property-or-attribute writer for HTML, which for
  a string value sets the attribute of that name (\<open>class\<close> for \<open>className\<close>, \<open>for\<close> for
  \<open>htmlFor\<close>; \<open>value\<close> and \<open>checked\<close> are set as properties in HTML).
\<close>

theorem setProperty_event_iff_on:
  "(beginsWithOn name \<longrightarrow>
      (\<exists>el'. setProperty el name v old ns = Inr el'
         \<and> map_of (the (listeners el')) (toLowerCase (drop 2 name)) = Some v
         \<and> (\<forall>k. k \<noteq> toLowerCase (drop 2 name) \<longrightarrow>
               map_of (the (listeners el')) k
                 = map_of (case listeners el of None \<Rightarrow> [] | Some l \<Rightarrow> l) k)
         \<and> set (hostListeners el')
             = (if truthy v \<and> \<not> truthy old
                then insert (toLowerCase (drop 2 name)) (set (hostListeners el))
                else if \<not> truthy v \<and> truthy old
                then set (hostListeners el) - {toLowerCase (drop 2 name)}
                else set (hostListeners el))
         \<and> el' \<lparr> listeners := listeners el, hostListeners := hostListeners el \<rparr> = el))
   \<and> (\<not> beginsWithOn name \<longrightarrow>
        (\<forall>el'. setProperty el name v old ns = Inr el' \<longrightarrow>
           listeners el' = listeners el \<and> hostListeners el' = hostListeners el)
        \<and> (name \<notin> {''children'', ''style'', ''dangerouslySetInnerHTML'', ''ref'', ''key''} \<longrightarrow>
             setProperty el name v old ns
               = Inr (if truthy ns then setAttributeSVG el name v
                      else setPropertyOrAttribute el name v)
             \<and> (isString v \<longrightarrow> (truthy ns \<or> attrName name \<notin> {''value'', ''checked''}) \<longrightarrow>
                  (\<exists>el'. setProperty el name v old ns = Inr el'
                     \<and> map_of (attributes el') (attrName name) = Some v))))"
proof -
  let ?ev = "toLowerCase (drop 2 name)"
  have a: "\<exists>el'. setProperty el name v old ns = Inr el'
         \<and> map_of (the (listeners el')) ?ev = Some v
         \<and> (\<forall>k. k \<noteq> ?ev \<longrightarrow>
               map_of (the (listeners el')) k
                 = map_of (case listeners el of None \<Rightarrow> [] | Some l \<Rightarrow> l) k)
         \<and> set (hostListeners el')
             = (if truthy v \<and> \<not> truthy old then insert ?ev (set (hostListeners el))
                else if \<not> truthy v \<and> truthy old then set (hostListeners el) - {?ev}
                else set (hostListeners el))
         \<and> el' \<lparr> listeners := listeners el, hostListeners := hostListeners el \<rparr> = el"
    if on: "beginsWithOn name"
  proof -
    from beginsWithOn_not_special[OF on] on
    have eq: "setProperty el name v old ns = Inr (setEventHandler el name v old)"
      by (simp add: setProperty_alt)
    have 1: "map_of (the (listeners (setEventHandler el name v old))) ?ev = Some v"
      by (simp add: setEventHandler_def Let_def update_Some_unfold)
    have 2: "map_of (the (listeners (setEventHandler el name v old))) k
               = map_of (case listeners el of None \<Rightarrow> [] | Some l \<Rightarrow> l) k" if "k \<noteq> ?ev" for k
      using that by (simp add: setEventHandler_def Let_def map_of_update_other)
    have 3: "set (hostListeners (setEventHandler el name v old))
             = (if truthy v \<and> \<not> truthy old then insert ?ev (set (hostListeners el))
                else if \<not> truthy v \<and> truthy old then set (hostListeners el) - {?ev}
                else set (hostListeners el))"
      by (auto simp: setEventHandler_def Let_def)
    have 4: "(setEventHandler el name v old) \<lparr> listeners := listeners el, hostListeners := hostListeners el \<rparr> = el"
      by (simp add: setEventHandler_def Let_def)
    from eq 1 2 3 4 show ?thesis by blast
  qed
  have c: "listeners el' = listeners el \<and> hostListeners el' = hostListeners el"
    if off: "\<not> beginsWithOn name" and r: "setProperty el name v old ns = Inr el'" for el'
  proof (cases "name = ''style''")
    case True
    with r have "setStyle el v old = Inr el'" by (simp add: setProperty_def)
    then show ?thesis by (rule setStyle_events)
  next
    case False
    with off r show ?thesis
      by (auto simp: setProperty_alt setAttributeSVG_def
          setPropertyOrAttribute_def Let_def split: if_splits)
  qed
  have d: "setProperty el name v old ns
             = Inr (if truthy ns then setAttributeSVG el name v else setPropertyOrAttribute el name v)"
    if off: "\<not> beginsWithOn name"
      and plain: "name \<notin> {''children'', ''style'', ''dangerouslySetInnerHTML'', ''ref'', ''key''}"
    using that by (simp add: setProperty_alt)
  have e: "\<exists>el'. setProperty el name v old ns = Inr el'
              \<and> map_of (attributes el') (attrName name) = Some v"
    if off: "\<not> beginsWithOn name"
      and plain: "name \<notin> {''children'', ''style'', ''dangerouslySetInnerHTML'', ''ref'', ''key''}"
      and str: "isString v" and attr: "truthy ns \<or> attrName name \<notin> {''value'', ''checked''}"
  proof -
    from str obtain t where v: "v = JStr t" by (cases v) auto
    show ?thesis
    proof (cases "truthy ns")
      case True
      then show ?thesis
        unfolding d[OF off plain] by (simp add: v setAttributeSVG_def update_Some_unfold)
    next
      case False
      with attr show ?thesis
        unfolding d[OF off plain]
        by (simp add: v setPropertyOrAttribute_def Let_def update_Some_unfold)
    qed
  qed
  show ?thesis
  proof (intro conjI impI)
    assume "beginsWithOn name"
    then show "\<exists>el'. setProperty el name v old ns = Inr el'
         \<and> map_of (the (listeners el')) ?ev = Some v
         \<and> (\<forall>k. k \<noteq> ?ev \<longrightarrow>
               map_of (the (listeners el')) k
                 = map_of (case listeners el of None \<Rightarrow> [] | Some l \<Rightarrow> l) k)
         \<and> set (hostListeners el')
             = (if truthy v \<and> \<not> truthy old then insert ?ev (set (hostListeners el))
                else if \<not> truthy v \<and> truthy old then set (hostListeners el) - {?ev}
                else set (hostListeners el))
         \<and> el' \<lparr> listeners := listeners el, hostListeners := hostListeners el \<rparr> = el"
      by (rule a)
  next
    assume off: "\<not> beginsWithOn name"
    show "\<forall>el'. setProperty el name v old ns = Inr el' \<longrightarrow>
           listeners el' = listeners el \<and> hostListeners el' = hostListeners el"
    proof (intro allI impI)
      fix el' assume "setProperty el name v old ns = Inr el'"
      with off show "listeners el' = listeners el \<and> hostListeners el' = hostListeners el"
        by (rule c)
    qed
  next
    assume off: "\<not> beginsWithOn name"
      and plain: "name \<notin> {''children'', ''style'', ''dangerouslySetInnerHTML'', ''ref'', ''key''}"
    from off plain show "setProperty el name v old ns
               = Inr (if truthy ns then setAttributeSVG el name v
                      else setPropertyOrAttribute el name v)"
      by (rule d)
  next
    assume off: "\<not> beginsWithOn name"
      and plain: "name \<notin> {''children'', ''style'', ''dangerouslySetInnerHTML'', ''ref'', ''key''}"
      and str: "isString v"
      and attr: "truthy ns \<or> attrName name \<notin> {''value'', ''checked''}"
    from off plain str attr
    show "\<exists>el'. setProperty el name v old ns = Inr el'
                     \<and> map_of (attributes el') (attrName name) = Some v"
      by (rule e)
  qed
qed



text \<open>
  C4 at concrete names: \<open>onClick\<close> with a handler on an element without one is delegated
  as \<open>click\<close>, in the listener map and at the host; \<open>title\<close> is written as the
  attribute \<open>title\<close> and leaves the listeners alone.
\<close>

theorem setProperty_event_iff_on_witness:
  "setProperty (newElement ''div'' Null) ''onClick'' (JFun (UserFn 1)) Undefined Null
     = Inr ((newElement ''div'' Null)
              \<lparr> listeners := Some [(''click'', JFun (UserFn 1))], hostListeners := [''click''] \<rparr>)
   \<and> setProperty (newElement ''div'' Null) ''title'' (JStr ''t'') Undefined Null
     = Inr ((newElement ''div'' Null) \<lparr> attributes := [(''title'', JStr ''t'')] \<rparr>)"
proof -
  have on: "beginsWithOn ''onClick''" and off: "\<not> beginsWithOn ''title''"
    and plain: "''title'' \<notin> {''children'', ''style'', ''dangerouslySetInnerHTML'', ''ref'', ''key''}"
    by (simp_all add: beginsWithOn_def)
  have low: "toLowerCase (drop 2 ''onClick'') = ''click''"
    by (simp add: toLowerCase_def lowerChar_def upperLetters_def lowerLetters_def)
  note click = setProperty_event_iff_on[of "''onClick''" "newElement ''div'' Null" "JFun (UserFn 1)"
      Undefined Null, THEN conjunct1, THEN mp, OF on, unfolded low]
  then obtain el' where
    1: "setProperty (newElement ''div'' Null) ''onClick'' (JFun (UserFn 1)) Undefined Null = Inr el'"
    and 2: "map_of (the (listeners el')) ''click'' = Some (JFun (UserFn 1))"
    and 3: "\<forall>k. k \<noteq> ''click'' \<longrightarrow> map_of (the (listeners el')) k
              = map_of (case listeners (newElement ''div'' Null) of None \<Rightarrow> [] | Some l \<Rightarrow> l) k"
    and 4: "set (hostListeners el')
             = (if truthy (JFun (UserFn 1)) \<and> \<not> truthy Undefined
                then insert ''click'' (set (hostListeners (newElement ''div'' Null)))
                else if \<not> truthy (JFun (UserFn 1)) \<and> truthy Undefined
                then set (hostListeners (newElement ''div'' Null)) - {''click''}
                else set (hostListeners (newElement ''div'' Null)))"
    and 5: "el' \<lparr> listeners := listeners (newElement ''div'' Null),
                  hostListeners := hostListeners (newElement ''div'' Null) \<rparr> = newElement ''div'' Null"
    by (elim exE conjE)
  have "setProperty (newElement ''div'' Null) ''onClick'' (JFun (UserFn 1)) Undefined Null
     = Inr ((newElement ''div'' Null)
              \<lparr> listeners := Some [(''click'', JFun (UserFn 1))], hostListeners := [''click''] \<rparr>)"
    by (simp add: setProperty_def setEventHandler_def newElement_def Let_def
        toLowerCase_def lowerChar_def upperLetters_def lowerLetters_def)
  moreover
  note title = setProperty_event_iff_on[of "''title''" "newElement ''div'' Null" "JStr ''t''"
      Undefined Null, THEN conjunct2, THEN mp, OF off, THEN conjunct2, THEN mp, OF plain,
      THEN conjunct1]
  then have "setProperty (newElement ''div'' Null) ''title'' (JStr ''t'') Undefined Null
     = Inr ((newElement ''div'' Null) \<lparr> attributes := [(''title'', JStr ''t'')] \<rparr>)"
    by (simp add: setPropertyOrAttribute_def attrName_def newElement_def)
  ultimately show ?thesis using 1 2 by simp
qed


text \<open>
  C4 as stated fails: \<open>once\<close> begins with \<open>on\<close> followed by a lower-case letter, and
  is still treated as a listener for the event \<open>ce\<close> instead of being written as an
  attribute.
\<close>

theorem setProperty_on_lowercase_counterexample:
  "\<not> isUpper (''once'' ! 2) \<and>
   setProperty (newElement ''input'' Null) ''once'' (JBool True) Undefined Null
     = Inr ((newElement ''input'' Null)
              \<lparr> listeners := Some [(''ce'', JBool True)], hostListeners := [''ce''] \<rparr>)"
  by (simp add: isUpper_def upperLetters_def setProperty_def setEventHandler_def newElement_def
      toLowerCase_def lowerChar_def lowerLetters_def Let_def)

section \<open>Contract violations (C6)\<close>


text \<open>
  C6, as the code has it: a hook called with no current component throws and logs
  nothing (\<open>useContext\<close> throws its own error, the slot hooks fail on reading
  \<open>currentComponent.__hooks\<close>, after \<open>currentIndex\<close> was incremented); a portal whose
  container is not an element is reported with \<open>console.error\<close>, and the diff of that
  vnode returns at once, leaving the queues as they were.
\<close>

theorem contract_violations:
  "(currentComponent w = None \<longrightarrow>
      useContext ctx w = Throw ''Error: useContext must be called during render'' w
    \<and> useEffect cb deps w = Throw ''TypeError: cannot read properties of null''
                              (w \<lparr> currentIndex := Suc (currentIndex w) \<rparr>)
    \<and> useLayoutEffect cb deps w = Throw ''TypeError: cannot read properties of null''
                              (w \<lparr> currentIndex := Suc (currentIndex w) \<rparr>)
    \<and> useState E init w = Throw ''TypeError: cannot read properties of null''
                              (w \<lparr> currentIndex := Suc (currentIndex w) \<rparr>))
   \<and> (vtype (vnodes w ! nv) = JPortal \<and>
       elementOf w (getProp (orEmptyObject (props (vnodes w ! nv))) ''_container'') = None \<longrightarrow>
      diffStep diff' unmount' n E parentDom (Some nv) old ns qs oldDom w
        = Done qs (logEvent (ConsoleError ''createPortal: container must be a DOM element'')
                     (logEvent (HookDiff nv) w)))"
  by (auto simp: useContext_def useEffect_def useLayoutEffect_def useState_def nextHookState_def
      getHookState_def andThen_def diffStep_def diffPortal_def Let_def)

text \<open>
  C6 at concrete inputs: \<open>useContext\<close> on the empty world, and the diff of a portal whose
  container is the string \<open>#modal\<close>.
\<close>

theorem contract_violations_witness:
  "useContext ThemeContext emptyWorld = Throw ''Error: useContext must be called during render'' emptyWorld
   \<and> diff (Suc 0) noCleanup 0 (Some 0) None Null ([], []) None badPortal
       = Done ([], []) (badPortal \<lparr> trace := [HookDiff 0,
            ConsoleError ''createPortal: container must be a DOM element''] \<rparr>)"
proof -
  have a: "currentComponent emptyWorld = None" by (simp add: emptyWorld_def)
  have b: "vtype (vnodes badPortal ! 0) = JPortal \<and>
       elementOf badPortal (getProp (orEmptyObject (props (vnodes badPortal ! 0))) ''_container'') = None"
    by (simp add: badPortal_def emptyWorld_def blankVNode_def elementOf_def orEmptyObject_def)
  have t: "trace badPortal = []" by (simp add: badPortal_def emptyWorld_def)
  from contract_violations[where w = emptyWorld and ctx = ThemeContext] a
  have 1: "useContext ThemeContext emptyWorld = Throw ''Error: useContext must be called during render'' emptyWorld"
    by blast
  from contract_violations[where w = badPortal and nv = 0 and diff' = "diff 0 noCleanup"
      and unmount' = "unmount 0 noCleanup" and n = 0 and E = noCleanup and parentDom = 0 and old = None
      and ns = Null and qs = "([], [])" and oldDom = None] b
  have "diffStep (diff 0 noCleanup) (unmount 0 noCleanup) 0 noCleanup 0 (Some 0) None Null ([], []) None badPortal
        = Done ([], []) (logEvent (ConsoleError ''createPortal: container must be a DOM element'')
                     (logEvent (HookDiff 0) badPortal))"
    by blast
  then have 2: "diff (Suc 0) noCleanup 0 (Some 0) None Null ([], []) None badPortal
       = Done ([], []) (badPortal \<lparr> trace := [HookDiff 0,
            ConsoleError ''createPortal: container must be a DOM element''] \<rparr>)"
    using t by (simp add: logEvent_def)
  from 1 2 show ?thesis by simp
qed

text \<open>
  C6 as stated fails: \<open>useContext\<close> outside a render signals the violation by a thrown
  error, and nothing is logged.
\<close>

theorem useContext_outside_render_counterexample:
  "useContext ThemeContext emptyWorld
     = Throw ''Error: useContext must be called during render'' emptyWorld
   \<and> trace emptyWorld = []"
  by (simp add: useContext_def emptyWorld_def)

section \<open>The effect dependency law (C7)\<close>

lemma argsChanged_iff:
  "argsChanged oldArgs newArgs \<longleftrightarrow>
     oldArgs = None \<or> newArgs = None \<or>
     length (the oldArgs) \<noteq> length (the newArgs) \<or>
     (\<exists>k < length (the newArgs). \<not> objectIs (the oldArgs ! k) (the newArgs ! k))"
  by (auto simp: argsChanged_def list_ex_iff split: option.splits)

lemma effectRuns_logEvent:
  "effectRuns c i (logEvent e w) = effectRuns c i w + (if isEffectRunOf c i e then 1 else 0)"
  by (simp add: effectRuns_def logEvent_def)

text \<open>
  One render of the slot followed by the flush of the pending effects: the callback runs
  once when \<open>argsChanged\<close> holds of the accepted dependencies and the new ones (always
  at mount, when the slot is new), and not at all otherwise; the accepted dependencies
  are then the new ones. No callback throws.
\<close>

lemma effect_cycle:
  assumes c: "c < length (comps w)"
    and i: "i \<le> length (hooksList (comps w ! c))"
    and cur: "currentComponent w = Some c" "currentIndex w = i"
    and idle: "pendingEffects (comps w ! c) = []"
    and fn: "isFunction cb"
    and quiet: "\<And>f. throws E f = None"
  defines "prev \<equiv> (if i < length (hooksList (comps w ! c)) then args (slotOf w c i) else None)"
  shows "\<exists>w1 w2. useEffect cb deps w = Done () w1 \<and> runPendingEffects E c w1 = Done () w2
           \<and> effectRuns c i w2 = effectRuns c i w + (if argsChanged prev deps then 1 else 0)
           \<and> args (slotOf w2 c i) = (if argsChanged prev deps then deps else prev)
           \<and> pendingEffects (comps w2 ! c) = []"
proof -
  define w0 where "w0 = w \<lparr> currentIndex := Suc i \<rparr>"
  define w1 where "w1 = (if length (hooksList (comps w0 ! c)) \<le> i
                    then updComp c (\<lambda>k. k \<lparr> hooksList := hooksList k @ [emptyHook] \<rparr>) w0
                    else w0)"
  have w0: "comps w0 = comps w" "trace w0 = trace w" "currentComponent w0 = Some c"
    using cur by (simp_all add: w0_def)
  have len1: "i < length (hooksList (comps w1 ! c))" and c1: "c < length (comps w1)"
    and pend1: "pendingEffects (comps w1 ! c) = []"
    and tr1: "trace w1 = trace w"
    and slot1: "args (slotOf w1 c i) = prev"
    using c i idle w0
    by (auto simp: w1_def updComp_def slotOf_def prev_def emptyHook_def nth_append)
  have "getHookState i w0 = Done (c, i) w1"
    using w0 len1 by (simp add: getHookState_def w1_def Let_def)
  then have nh: "nextHookState w = Done (c, i) w1"
    using cur by (simp add: nextHookState_def w0_def)
  show ?thesis
  proof (cases "argsChanged prev deps")
    case False
    then have "useEffect cb deps w = Done () w1"
      using nh slot1 by (simp add: useEffect_def andThen_def)
    moreover have "runPendingEffects E c w1 = Done () w1"
      using pend1 by (simp add: runPendingEffects_def)
    ultimately show ?thesis
      using False slot1 pend1 tr1 by (auto simp: effectRuns_def)
  next
    case True
    define w2 where "w2 = updComp c (\<lambda>k. k \<lparr> pendingEffects := pendingEffects k @ [i] \<rparr>)
                 (updHook c i (\<lambda>s. s \<lparr> hvalue := cb, pendingArgs := deps \<rparr>) w1)"
    have ue: "useEffect cb deps w = Done () w2"
      using nh slot1 True by (simp add: useEffect_def andThen_def w2_def)
    have p2: "pendingEffects (comps w2 ! c) = [i]"
      and c2: "c < length (comps w2)" and len2: "i < length (hooksList (comps w2 ! c))"
      and s2: "hvalue (slotOf w2 c i) = cb" "pendingArgs (slotOf w2 c i) = deps"
      and tr2: "trace w2 = trace w"
      using c1 len1 pend1 tr1
      by (auto simp: w2_def updComp_def updHook_def slotOf_def)
    define w3 where "w3 = (if truthy (cleanup (slotOf w2 c i))
                then logEvent (CleanupRun c i (cleanup (slotOf w2 c i))) w2 else w2)"
    have s3: "slotOf w3 c i = slotOf w2 c i" and c3: "c < length (comps w3)"
      and len3: "i < length (hooksList (comps w3 ! c))"
      and r3: "effectRuns c i w3 = effectRuns c i w"
      using c2 len2 tr2
      by (auto simp: w3_def effectRuns_logEvent isEffectRunOf_def effectRuns_def)
    define w4 where "w4 = updHook c i (\<lambda>s. s \<lparr> cleanup := (if isFunction (effectResult E cb) then effectResult E cb else Undefined),
                                       args := pendingArgs s \<rparr>) (logEvent (EffectRun c i cb) w3)"
    have slot: "runEffectSlot E c i w2 = Done () w4"
      using fn s2 s3 quiet by (simp add: runEffectSlot_def Let_def w3_def w4_def callUser_def)
    have r4: "effectRuns c i w4 = effectRuns c i w + 1"
      and a4: "args (slotOf w4 c i) = deps"
      and c4: "c < length (comps w4)"
      using r3 c3 len3 s3 s2
      by (auto simp: w4_def updHook_def updComp_def slotOf_def logEvent_def effectRuns_def isEffectRunOf_def)
    define w5 where "w5 = updComp c (\<lambda>k. k \<lparr> pendingEffects := [] \<rparr>) w4"
    have "runPendingEffects E c w2 = Done () w5"
      using p2 slot by (simp add: runPendingEffects_def andThen_def w5_def)
    moreover have "effectRuns c i w5 = effectRuns c i w + 1" "args (slotOf w5 c i) = deps"
      "pendingEffects (comps w5 ! c) = []"
      using r4 a4 c4 by (auto simp: w5_def updComp_def slotOf_def effectRuns_def)
    ultimately show ?thesis using ue True by auto
  qed
qed

text \<open>
  C7 evaluated where it fails: a component with \<open>useEffect(callback, [])\<close> is rendered
  twice before the post-paint callback of the first render fires. The accepted
  dependencies are still unset at the second render, so the slot is queued a second
  time, and the callback runs twice although the dependencies never changed. When each
  render is followed by its post-paint callback (lemma \<open>effect_cycle\<close>) it runs once.
\<close>

theorem effect_runs_twice_before_paint:
  "map_option (effectRuns 0 0) (worldOf twoRendersBeforePaint) = Some 2
   \<and> map_option (effectRuns 0 0) (worldOf twoRendersEachPainted) = Some 1"
  by code_simp


section \<open>Matching unkeyed children (C8)\<close>









section \<open>Normalization clones its input (C10)\<close>

lemma pushVNode_createVNode:
  "pushVNode acc (createVNode t p k r w) =
     (acc @ [length (vnodes w)], w \<lparr> vnodes := vnodes w @ [blankVNode t p k r] \<rparr>)"
  by (simp add: pushVNode_def createVNode_def)

lemma isBlank_blankVNode [simp]: "isBlank (blankVNode t p k r)"
  by (simp add: isBlank_def blankVNode_def)

lemma appendsClones_refl [simp]: "appendsClones s s"
  unfolding appendsClones_def by (rule exI[where x = "[]"]) simp

lemma appendsClones_warn [simp]: "appendsClones s (warnUnknownChild s)"
  unfolding appendsClones_def by (rule exI[where x = "[]"]) (simp add: warnUnknownChild_def)

lemma appendsClones_push [simp]:
  "appendsClones s (pushVNode (fst s) (createVNode t p k r (snd s)))"
  unfolding appendsClones_def pushVNode_createVNode
  by (rule exI[where x = "[blankVNode t p k r]"]) simp







section \<open>Reading a context (C1, C2)\<close>

text \<open>
  C1 evaluated where it fails. \<open>ThemeContext.Provider\<close> is rendered with the value
  \<open>'provided-value'\<close> around \<open>Consumer\<close>. After the mount the provider vnode (address 3)
  carries the value in its props, it is the parent of the consumer's vnode (address 4,
  instance 2), and \<open>useContext\<close> has subscribed the consumer to it, on both sides; but
  the consumer received \<open>undefined\<close>: \<open>useContext\<close> returns \<open>providerVNode._contextValue\<close>, a
  field that no code of the engine assigns.
\<close>

theorem useContext_reads_undefined:
  "map_option (\<lambda>w. (getProp (props (vnodes w ! 3)) ''value'', vparent (vnodes w ! 4),
                     cvnode (comps w ! 2), contextSubscriptions (vnodes w ! 3),
                     csubscriptions (comps w ! 2), refObjs w))
     (worldOf providerMounted)
   = Some (JStr ''provided-value'', Some 3, Some 4, Some [2], Some [3], [Undefined])"
  by code_simp

text \<open>
  C2 evaluated where it fails. The same tree is rendered again with the value
  \<open>'changed'\<close>. The provider vnode of the first render (address 3) is diffed against the
  new one (address 8), whose value differs; its subscriber set holds the consumer
  (instance 2), whose vnode is not null. When the render has completed the render queue is
  empty and no microtask is scheduled: the diff of a Provider compares nothing and
  notifies nobody.
\<close>

theorem provider_change_enqueues_nothing:
  "map_option (\<lambda>w. (getProp (props (vnodes w ! 3)) ''value'', getProp (props (vnodes w ! 8)) ''value'',
                     contextSubscriptions (vnodes w ! 3), cvnode (comps w ! 2),
                     renderQueue w, scheduled w, microtasks w))
     (worldOf providerRerendered)
   = Some (JStr ''provided-value'', JStr ''changed'', Some [2], Some 9, [], False, 0)"
  by code_simp

section \<open>Batching of state updates (C9)\<close>

text \<open>
  C9 evaluated where it fails. The child's setter and the parent's setter are called in
  the same turn: each instance is in the queue once (\<open>[2, 1]\<close>) and one microtask is
  scheduled. The drain sorts the parent first and renders it, which renders the child
  through the tree diff; the child is still in the queue (nothing calls
  \<open>dequeueRender\<close>) and is rendered a second time. When only the child is updated,
  twice, it is rendered once.
\<close>

theorem child_rendered_twice_in_one_drain:
  "map_option (\<lambda>w. (renderQueue w, microtasks w, renders w)) (worldOf bothQueued)
     = Some ([2, 1], 1, [0, 1, 2])
   \<and> map_option (\<lambda>w. (renderQueue w, microtasks w, renders w)) (worldOf bothUpdated)
     = Some ([], 0, [0, 1, 2, 1, 2, 2])
   \<and> map_option (\<lambda>w. (renderQueue w, microtasks w, renders w)) (worldOf onlyChildUpdated)
     = Some ([], 0, [0, 1, 2, 2])"
  by code_simp

end
